theory Spec2Isabelle
  imports Complex_Main
begin

section \<open>Numbers and exceptions\<close>

text \<open>
  The program computes with IEEE double precision numbers (Python floats and numpy
  float64 scalars). A finite value is modelled by the real number it stands for, so
  rounding, overflow and the sign of zero are not represented; the special values
  inf, -inf and nan are, because numpy arithmetic produces them instead of raising.
\<close>

datatype float64 = Fin real | PInf | NInf | NaN

datatype error = Exception string | IndexError | ZeroDivisionError | KeyError | TypeError

fun fneg :: "float64 \<Rightarrow> float64" where
  "fneg (Fin a) = Fin (- a)"
| "fneg PInf = NInf"
| "fneg NInf = PInf"
| "fneg NaN = NaN"

fun fadd :: "float64 \<Rightarrow> float64 \<Rightarrow> float64" where
  "fadd (Fin a) (Fin b) = Fin (a + b)"
| "fadd NaN _ = NaN"
| "fadd _ NaN = NaN"
| "fadd PInf NInf = NaN"
| "fadd NInf PInf = NaN"
| "fadd PInf _ = PInf"
| "fadd _ PInf = PInf"
| "fadd NInf _ = NInf"
| "fadd _ NInf = NInf"

fun fsub :: "float64 \<Rightarrow> float64 \<Rightarrow> float64" where
  "fsub (Fin a) (Fin b) = Fin (a - b)"
| "fsub NaN _ = NaN"
| "fsub _ NaN = NaN"
| "fsub PInf PInf = NaN"
| "fsub NInf NInf = NaN"
| "fsub PInf _ = PInf"
| "fsub _ NInf = PInf"
| "fsub NInf _ = NInf"
| "fsub _ PInf = NInf"

fun fmul :: "float64 \<Rightarrow> float64 \<Rightarrow> float64" where
  "fmul (Fin a) (Fin b) = Fin (a * b)"
| "fmul NaN _ = NaN"
| "fmul _ NaN = NaN"
| "fmul (Fin a) PInf = (if a = 0 then NaN else if 0 < a then PInf else NInf)"
| "fmul (Fin a) NInf = (if a = 0 then NaN else if 0 < a then NInf else PInf)"
| "fmul PInf (Fin b) = (if b = 0 then NaN else if 0 < b then PInf else NInf)"
| "fmul NInf (Fin b) = (if b = 0 then NaN else if 0 < b then NInf else PInf)"
| "fmul PInf PInf = PInf"
| "fmul PInf NInf = NInf"
| "fmul NInf PInf = NInf"
| "fmul NInf NInf = PInf"

text \<open>
  Division of numpy scalars: a zero divisor gives inf or nan (with a warning), never
  an exception.
\<close>

fun np_div :: "float64 \<Rightarrow> float64 \<Rightarrow> float64" where
  "np_div (Fin a) (Fin b) =
     (if b \<noteq> 0 then Fin (a / b) else if a = 0 then NaN else if 0 < a then PInf else NInf)"
| "np_div NaN _ = NaN"
| "np_div _ NaN = NaN"
| "np_div (Fin a) PInf = Fin 0"
| "np_div (Fin a) NInf = Fin 0"
| "np_div PInf (Fin b) = (if 0 \<le> b then PInf else NInf)"
| "np_div NInf (Fin b) = (if 0 \<le> b then NInf else PInf)"
| "np_div PInf PInf = NaN"
| "np_div PInf NInf = NaN"
| "np_div NInf PInf = NaN"
| "np_div NInf NInf = NaN"

text \<open>Division of two Python floats raises on a zero divisor.\<close>

definition py_div :: "float64 \<Rightarrow> float64 \<Rightarrow> error + float64" where
  "py_div a b = (if b = Fin 0 then Inl ZeroDivisionError else Inr (np_div a b))"

text \<open>Comparisons: every comparison with nan is false.\<close>

fun flt :: "float64 \<Rightarrow> float64 \<Rightarrow> bool" where
  "flt (Fin a) (Fin b) = (a < b)"
| "flt NaN _ = False"
| "flt _ NaN = False"
| "flt NInf NInf = False"
| "flt NInf _ = True"
| "flt _ NInf = False"
| "flt PInf _ = False"
| "flt _ PInf = True"

fun fle :: "float64 \<Rightarrow> float64 \<Rightarrow> bool" where
  "fle (Fin a) (Fin b) = (a \<le> b)"
| "fle NaN _ = False"
| "fle _ NaN = False"
| "fle NInf _ = True"
| "fle _ PInf = True"
| "fle _ NInf = False"
| "fle PInf _ = False"

text \<open>Python's builtin \<open>max(a, b)\<close> keeps \<open>a\<close> unless \<open>b > a\<close>; \<open>min\<close> likewise.\<close>

definition py_max :: "float64 \<Rightarrow> float64 \<Rightarrow> float64" where
  "py_max a b = (if flt a b then b else a)"

definition py_min :: "float64 \<Rightarrow> float64 \<Rightarrow> float64" where
  "py_min a b = (if flt b a then b else a)"

fun np_log :: "float64 \<Rightarrow> float64" where
  "np_log (Fin x) = (if 0 < x then Fin (ln x) else if x = 0 then NInf else NaN)"
| "np_log PInf = PInf"
| "np_log NInf = NaN"
| "np_log NaN = NaN"

fun np_exp :: "float64 \<Rightarrow> float64" where
  "np_exp (Fin x) = Fin (exp x)"
| "np_exp PInf = PInf"
| "np_exp NInf = Fin 0"
| "np_exp NaN = NaN"

fun np_sqrt :: "float64 \<Rightarrow> float64" where
  "np_sqrt (Fin x) = (if 0 \<le> x then Fin (sqrt x) else NaN)"
| "np_sqrt PInf = PInf"
| "np_sqrt NInf = NaN"
| "np_sqrt NaN = NaN"

fun np_abs :: "float64 \<Rightarrow> float64" where
  "np_abs (Fin x) = Fin \<bar>x\<bar>"
| "np_abs PInf = PInf"
| "np_abs NInf = PInf"
| "np_abs NaN = NaN"

fun np_floor :: "float64 \<Rightarrow> float64" where
  "np_floor (Fin x) = Fin (of_int \<lfloor>x\<rfloor>)"
| "np_floor PInf = PInf"
| "np_floor NInf = NInf"
| "np_floor NaN = NaN"

definition is_integer :: "real \<Rightarrow> bool" where
  "is_integer y = (of_int \<lfloor>y\<rfloor> = y)"

definition is_odd_integer :: "real \<Rightarrow> bool" where
  "is_odd_integer y = (is_integer y \<and> odd \<lfloor>y\<rfloor>)"

text \<open>
  The power operator \<open>**\<close> on numpy scalars follows the C library function pow:
  a negative base with a fractional exponent gives nan, a zero base with a negative
  exponent gives inf.
\<close>

fun np_power :: "float64 \<Rightarrow> float64 \<Rightarrow> float64" where
  "np_power (Fin x) (Fin y) =
     (if y = 0 then Fin 1
      else if 0 < x then Fin (x powr y)
      else if x = 0 then (if 0 < y then Fin 0 else PInf)
      else if is_integer y then Fin (x powi \<lfloor>y\<rfloor>)
      else NaN)"
| "np_power NaN (Fin y) = (if y = 0 then Fin 1 else NaN)"
| "np_power PInf (Fin y) = (if y = 0 then Fin 1 else if 0 < y then PInf else Fin 0)"
| "np_power NInf (Fin y) =
     (if y = 0 then Fin 1
      else if 0 < y then (if is_odd_integer y then NInf else PInf)
      else Fin 0)"
| "np_power (Fin x) NaN = (if x = 1 then Fin 1 else NaN)"
| "np_power (Fin x) PInf =
     (if \<bar>x\<bar> = 1 then Fin 1 else if \<bar>x\<bar> < 1 then Fin 0 else PInf)"
| "np_power (Fin x) NInf =
     (if \<bar>x\<bar> = 1 then Fin 1 else if \<bar>x\<bar> < 1 then PInf else Fin 0)"
| "np_power PInf PInf = PInf"
| "np_power NInf PInf = PInf"
| "np_power PInf NInf = Fin 0"
| "np_power NInf NInf = Fin 0"
| "np_power _ NaN = NaN"
| "np_power NaN _ = NaN"

text \<open>Indexing a list or array out of range raises IndexError.\<close>

definition np_get :: "'a list \<Rightarrow> nat \<Rightarrow> error + 'a" where
  "np_get xs i = (if i < length xs then Inr (xs ! i) else Inl IndexError)"

definition np_set :: "'a list \<Rightarrow> nat \<Rightarrow> 'a \<Rightarrow> error + 'a list" where
  "np_set xs i v = (if i < length xs then Inr (xs[i := v]) else Inl IndexError)"

definition bind_exc :: "error + 'a \<Rightarrow> ('a \<Rightarrow> error + 'b) \<Rightarrow> error + 'b" where
  "bind_exc m f = (case m of Inl e \<Rightarrow> Inl e | Inr x \<Rightarrow> f x)"

section \<open>The standard atmosphere of the Aircraft class\<close>

definition atm_g :: float64 where "atm_g = Fin 9.80665"
definition atm_r :: float64 where "atm_r = Fin 287.053"
definition atm_gam :: float64 where "atm_gam = Fin 1.4"

definition atm_Z :: "float64 list" where
  "atm_Z = [Fin 0, Fin 11000, Fin 20000, Fin 32000, Fin 47000, Fin 50000]"

definition atm_dtodz :: "float64 list" where
  "atm_dtodz = [Fin (- 0.0065), Fin 0, Fin 0.0010, Fin 0.0028, Fin 0]"

definition atm_P0 :: "float64 list" where
  "atm_P0 = [Fin 101325, Fin 0, Fin 0, Fin 0, Fin 0, Fin 0]"

definition atm_T0 :: "float64 list" where
  "atm_T0 = [Fin 288.15, Fin 0, Fin 0, Fin 0, Fin 0, Fin 0]"

text \<open>One pass through the body of the while loop: \<open>T[j+1]\<close> and \<open>P[j+1]\<close> are stored.\<close>

definition atmosphere_body ::
  "nat \<Rightarrow> float64 list \<Rightarrow> float64 list \<Rightarrow> error + (float64 list \<times> float64 list)" where
  "atmosphere_body j T P =
     bind_exc (np_get T j) (\<lambda>Tj.
     bind_exc (np_get atm_dtodz j) (\<lambda>dj.
     bind_exc (np_get atm_Z (j + 1)) (\<lambda>Zj1.
     bind_exc (np_get atm_Z j) (\<lambda>Zj.
     bind_exc (np_set T (j + 1) (fadd Tj (fmul dj (fsub Zj1 Zj)))) (\<lambda>T'.
     bind_exc (np_get P j) (\<lambda>Pj.
     bind_exc (np_get T' j) (\<lambda>Tj'.
     bind_exc (np_set P (j + 1)
        (if flt (Fin 0) (np_abs dj)
         then fmul Pj (np_power (fadd (Fin 1) (fmul (np_div dj Tj') (fsub Zj1 Zj)))
                                (np_div (fneg atm_g) (fmul atm_r dj)))
         else fmul Pj (np_exp (fmul (fneg (np_div atm_g atm_r)) (np_div (fsub Zj1 Zj) Tj')))))
       (\<lambda>P'. Inr (T', P')))))))))"

text \<open>
  The while loop \<open>while (Z[1+j] <= altp)\<close>. The test reads \<open>Z[1+j]\<close> before each
  pass, and that read raises once \<open>1+j\<close> leaves the table, so the loop ends.
\<close>

function atmosphere_loop ::
  "float64 \<Rightarrow> nat \<Rightarrow> float64 list \<Rightarrow> float64 list
     \<Rightarrow> error + (nat \<times> float64 list \<times> float64 list)" where
  "atmosphere_loop altp j T P =
     (case np_get atm_Z (1 + j) of
        Inl e \<Rightarrow> Inl e
      | Inr z \<Rightarrow>
          if fle z altp
          then (case atmosphere_body j T P of
                  Inl e \<Rightarrow> Inl e
                | Inr (T', P') \<Rightarrow> atmosphere_loop altp (j + 1) T' P')
          else Inr (j, T, P))"
  by pat_completeness auto
termination
  by (relation "measure (\<lambda>(altp, j, T, P). length atm_Z - j)")
     (auto simp: np_get_def split: if_splits)

definition atmosphere ::
  "float64 \<Rightarrow> float64 \<Rightarrow> error + (float64 \<times> float64 \<times> float64 \<times> float64)" where
  "atmosphere altp disa =
     bind_exc (np_get atm_Z (length atm_Z - 1)) (\<lambda>Ztop.
       if flt Ztop altp
       then Inl (Exception ''atmosphere, altitude cannot exceed 50km'')
       else
         bind_exc (atmosphere_loop altp 0 atm_T0 atm_P0) (\<lambda>(j, T, P).
         bind_exc (np_get atm_dtodz j) (\<lambda>dj.
         bind_exc (np_get P j) (\<lambda>Pj.
         bind_exc (np_get T j) (\<lambda>Tj.
         bind_exc (np_get atm_Z j) (\<lambda>Zj.
           let pamb =
                 (if flt (Fin 0) (np_abs dj)
                  then fmul Pj (np_power (fadd (Fin 1) (fmul (np_div dj Tj) (fsub altp Zj)))
                                         (np_div (fneg atm_g) (fmul atm_r dj)))
                  else fmul Pj (np_exp (fmul (fneg (np_div atm_g atm_r))
                                             (np_div (fsub altp Zj) Tj))));
               tamb = fadd (fadd Tj (fmul dj (fsub altp Zj))) disa;
               vsnd = np_sqrt (fmul (fmul atm_gam atm_r) tamb)
           in Inr (pamb, tamb, vsnd, atm_g)))))))"

section \<open>The Aircraft class\<close>

text \<open>
  An \<open>aircraft\<close> value is an Aircraft object whose constructor has returned: the
  constructor ends with \<open>design_aircraft\<close>, so every attribute holds a number.
  The requested range is the field \<open>range_ac\<close>. A method takes the object and
  returns its result, or the exception it raised, together with the object as the
  call leaves it.
\<close>

record aircraft =
  cruise_altp :: float64
  cruise_mach :: float64
  cruise_speed :: float64
  range_ac :: float64
  npax :: float64
  mpax :: float64
  payload :: float64
  mtow :: float64
  owe :: float64
  ldw :: float64
  fuel_mission :: float64
  fuel_reserve :: float64
  kr :: float64
  payload_max :: float64
  range_pl_max :: float64
  payload_fuel_max :: float64
  range_fuel_max :: float64
  range_no_pl :: float64
  lod :: float64
  sfc :: float64
  eff_ratio :: float64
  owe_coef :: "float64 list"

definition l_o_d :: "float64 \<Rightarrow> float64" where
  "l_o_d n =
     (let pax1 = Fin 60; lod1 = Fin 15; pax2 = Fin 160; lod2 = Fin 20;
          lod_lin = fadd lod1 (np_div (fmul (fsub lod2 lod1) (fsub n pax1)) (fsub pax2 pax1))
      in py_max lod1 (py_min lod_lin lod2))"

definition structure_ac ::
  "float64 \<Rightarrow> float64 list option \<Rightarrow> aircraft \<Rightarrow> (error + float64) \<times> aircraft" where
  "structure_ac m coef ac =
     (let ac1 = (case coef of None \<Rightarrow> ac | Some c \<Rightarrow> ac\<lparr>owe_coef := c\<rparr>)
      in (bind_exc (np_get (owe_coef ac1) 0) (\<lambda>c0.
          bind_exc (np_get (owe_coef ac1) 1) (\<lambda>c1.
          bind_exc (np_get (owe_coef ac1) 2) (\<lambda>c2.
            Inr (fadd (fmul (fadd (fmul c0 m) c1) m) c2)))), ac1))"

text \<open>
  The module \<open>unit\<close> is not part of the sources. The one value the class takes from
  it after construction, \<open>unit.convert_from("kg/daN/h", 1.)\<close>, is the parameter
  \<open>conv\<close> of the methods that use it; dividing \<open>effr\<close> by it is a division of
  Python floats.

  In \<open>mission\<close> the take-off weight and the fuel are numpy scalars at every call
  inside the repository (they come from the root-finder's array or from
  \<open>self.mtow\<close>), so \<open>tow/(tow-fuel_mission)\<close> is a numpy division and \<open>np.log\<close>
  of a negative number is nan.
\<close>

definition mission ::
  "float64 \<Rightarrow> float64 \<Rightarrow> float64 \<Rightarrow> float64 option \<Rightarrow> aircraft
     \<Rightarrow> (error + float64) \<times> aircraft" where
  "mission conv tow fuel effr ac =
     (case (case effr of
              None \<Rightarrow> Inr ac
            | Some e \<Rightarrow> bind_exc (py_div e conv) (\<lambda>v. Inr (ac\<lparr>eff_ratio := v\<rparr>))) of
        Inl err \<Rightarrow> (Inl err, ac)
      | Inr ac1 \<Rightarrow>
          (bind_exc (atmosphere (cruise_altp ac1) (Fin 0)) (\<lambda>(pamb, tamb, vsnd, g).
             let range_factor = np_div (fmul (fmul (cruise_mach ac1) vsnd) (eff_ratio ac1)) g
             in Inr (fmul range_factor (np_log (np_div tow (fsub tow fuel))))), ac1))"

text \<open>
  \<open>max_capacity\<close>: the payloads are Python floats (products of \<open>npax\<close> and \<open>mpax\<close>),
  the corner ranges are numpy scalars (results of \<open>np.log\<close>). So the division of the
  first branch is a division of Python floats, the other two are numpy divisions.
\<close>

definition max_capacity :: "float64 \<Rightarrow> aircraft \<Rightarrow> error + float64" where
  "max_capacity rng ac =
     (if fle rng (range_pl_max ac)
      then bind_exc (py_div (payload_max ac) (mpax ac)) (\<lambda>q. Inr (np_floor q))
      else if flt (range_pl_max ac) rng \<and> fle rng (range_fuel_max ac)
      then (let pl = fadd (payload_fuel_max ac)
                       (np_div (fmul (fsub (payload_max ac) (payload_fuel_max ac))
                                     (fsub rng (range_fuel_max ac)))
                               (fsub (range_pl_max ac) (range_fuel_max ac)))
            in Inr (np_floor (np_div pl (mpax ac))))
      else if flt (range_fuel_max ac) rng \<and> fle rng (range_no_pl ac)
      then (let pl = np_div (fmul (payload_fuel_max ac) (fsub rng (range_no_pl ac)))
                            (fsub (range_fuel_max ac) (range_no_pl ac))
            in Inr (np_floor (np_div pl (mpax ac))))
      else Inr (Fin 0))"

definition eval_design ::
  "float64 \<Rightarrow> float64 \<times> float64 \<Rightarrow> aircraft
     \<Rightarrow> (error + float64 \<times> float64) \<times> aircraft" where
  "eval_design conv X ac =
     (let ac1 = ac\<lparr>mtow := fst X\<rparr>;
          ac2 = ac1\<lparr>fuel_mission := snd X\<rparr>
      in case structure_ac (mtow ac2) None ac2 of
           (Inl e, ac3) \<Rightarrow> (Inl e, ac3)
         | (Inr owe_eff, ac3) \<Rightarrow>
             (case mission conv (mtow ac3) (fuel_mission ac3) None ac3 of
                (Inl e, ac4) \<Rightarrow> (Inl e, ac4)
              | (Inr range_eff, ac4) \<Rightarrow>
                  (let ac5 = ac4\<lparr>fuel_reserve := fmul (kr ac4) (fuel_mission ac4)\<rparr>;
                       ac6 = ac5\<lparr>ldw := fsub (mtow ac5) (fuel_mission ac5)\<rparr>;
                       ac7 = ac6\<lparr>payload := fmul (npax ac6) (mpax ac6)\<rparr>;
                       ac8 = ac7\<lparr>owe := fsub (fsub (fsub (mtow ac7) (payload ac7))
                                                 (fuel_mission ac7)) (fuel_reserve ac7)\<rparr>
                   in (Inr (fsub (owe ac8) owe_eff, fsub (range_ac ac8) range_eff), ac8))))"

section \<open>The root-finder\<close>

text \<open>
  \<open>scipy.optimize.fsolve\<close> is not part of the repository. All the program sees of
  it is that it calls the residual function at points of its choice and returns a
  point with an integer flag (1 for convergence). It is modelled as a parameter: a
  strategy that, from the initial guess and the evaluations made so far (point and
  residual), either asks for one more evaluation or finishes with a point and a flag.
  As scipy does, the run starts with an evaluation at the initial guess, and it ends
  with flag 2 once the budget of evaluations (scipy's \<open>maxfev\<close>) is used up. An
  exception of the residual function leaves the run at once, with the state as the
  evaluations have left it.
\<close>

datatype 'x action = Evaluate 'x | Finish 'x int

type_synonym 'x root_finder = "'x \<Rightarrow> ('x \<times> 'x) list \<Rightarrow> 'x action"

fun fsolve_iter ::
  "nat \<Rightarrow> 'x root_finder \<Rightarrow> ('x \<Rightarrow> 's \<Rightarrow> (error + 'x) \<times> 's) \<Rightarrow> 'x \<Rightarrow> ('x \<times> 'x) list \<Rightarrow> 's
     \<Rightarrow> (error + 'x \<times> int) \<times> 's" where
  "fsolve_iter 0 rf func x0 hist s =
     (case rf x0 hist of
        Finish x ier \<Rightarrow> (Inr (x, ier), s)
      | Evaluate x \<Rightarrow> (Inr (x, 2), s))"
| "fsolve_iter (Suc k) rf func x0 hist s =
     (case rf x0 hist of
        Finish x ier \<Rightarrow> (Inr (x, ier), s)
      | Evaluate x \<Rightarrow>
          (case func x s of
             (Inl e, s') \<Rightarrow> (Inl e, s')
           | (Inr r, s') \<Rightarrow> fsolve_iter k rf func x0 (hist @ [(x, r)]) s'))"

definition fsolve ::
  "nat \<Rightarrow> 'x root_finder \<Rightarrow> ('x \<Rightarrow> 's \<Rightarrow> (error + 'x) \<times> 's) \<Rightarrow> 'x \<Rightarrow> 's
     \<Rightarrow> (error + 'x \<times> int) \<times> 's" where
  "fsolve maxfev rf func x0 s =
     (case func x0 s of
        (Inl e, s') \<Rightarrow> (Inl e, s')
      | (Inr r, s') \<Rightarrow> fsolve_iter maxfev rf func x0 [(x0, r)] s')"

section \<open>Mass-mission adaptation\<close>

text \<open>The first lines of \<open>design_aircraft\<close>: the optional arguments are stored.\<close>

definition design_setup ::
  "float64 \<Rightarrow> float64 list option \<Rightarrow> float64 option \<Rightarrow> float64 option \<Rightarrow> float64 option
     \<Rightarrow> aircraft \<Rightarrow> (error + unit) \<times> aircraft" where
  "design_setup conv coef kr_arg mpax_arg effr ac =
     (let ac1 = (case coef of None \<Rightarrow> ac | Some c \<Rightarrow> ac\<lparr>owe_coef := c\<rparr>);
          ac2 = (case kr_arg of None \<Rightarrow> ac1 | Some k \<Rightarrow> ac1\<lparr>kr := k\<rparr>);
          ac3 = (case mpax_arg of None \<Rightarrow> ac2 | Some w \<Rightarrow> ac2\<lparr>mpax := w\<rparr>)
      in case (case effr of
                 Some e \<Rightarrow> py_div e conv
               | None \<Rightarrow> py_div (l_o_d (npax ac3)) (sfc ac3)) of
           Inl err \<Rightarrow> (Inl err, ac3)
         | Inr v \<Rightarrow> (Inr (), ac3\<lparr>eff_ratio := v\<rparr>))"

definition Xini :: "aircraft \<Rightarrow> float64 \<times> float64" where
  "Xini ac = (fmul (fmul (npax ac) (mpax ac)) (Fin 4), fmul (fmul (npax ac) (mpax ac)) (Fin 1))"

text \<open>The last lines of \<open>design_aircraft\<close>: cruise speed and the corners of the envelope.\<close>

definition design_envelope :: "float64 \<Rightarrow> aircraft \<Rightarrow> (error + unit) \<times> aircraft" where
  "design_envelope conv ac =
     (case atmosphere (cruise_altp ac) (Fin 0) of
        Inl e \<Rightarrow> (Inl e, ac)
      | Inr (pamb, tamb, vsnd, g) \<Rightarrow>
          (let ac1 = ac\<lparr>cruise_speed := fmul vsnd (cruise_mach ac)\<rparr>;
               ac2 = ac1\<lparr>payload_max := fmul (payload ac1) (Fin 1.20)\<rparr>;
               fuel = np_div (fsub (fsub (mtow ac2) (owe ac2)) (payload_max ac2))
                             (fadd (Fin 1) (kr ac2))
           in case mission conv (mtow ac2) fuel None ac2 of
                (Inl e, ac3) \<Rightarrow> (Inl e, ac3)
              | (Inr r1, ac3) \<Rightarrow>
                  (let ac4 = ac3\<lparr>range_pl_max := r1\<rparr>;
                       ac5 = ac4\<lparr>payload_fuel_max := fmul (payload ac4) (Fin 0.40)\<rparr>;
                       fuel_max = np_div (fsub (fsub (mtow ac5) (owe ac5)) (payload_fuel_max ac5))
                                         (fadd (Fin 1) (kr ac5))
                   in case mission conv (mtow ac5) fuel_max None ac5 of
                        (Inl e, ac6) \<Rightarrow> (Inl e, ac6)
                      | (Inr r2, ac6) \<Rightarrow>
                          (let ac7 = ac6\<lparr>range_fuel_max := r2\<rparr>;
                               tow = fadd (owe ac7) (fmul fuel_max (fadd (Fin 1) (kr ac7)))
                           in case mission conv tow fuel_max None ac7 of
                                (Inl e, ac8) \<Rightarrow> (Inl e, ac8)
                              | (Inr r3, ac8) \<Rightarrow> (Inr (), ac8\<lparr>range_no_pl := r3\<rparr>)))))"

definition design_aircraft ::
  "float64 \<Rightarrow> (float64 \<times> float64) root_finder \<Rightarrow> nat
     \<Rightarrow> float64 list option \<Rightarrow> float64 option \<Rightarrow> float64 option \<Rightarrow> float64 option
     \<Rightarrow> aircraft \<Rightarrow> (error + unit) \<times> aircraft" where
  "design_aircraft conv rf maxfev coef kr_arg mpax_arg effr ac =
     (case design_setup conv coef kr_arg mpax_arg effr ac of
        (Inl e, ac1) \<Rightarrow> (Inl e, ac1)
      | (Inr u, ac1) \<Rightarrow>
          (case fsolve maxfev rf (eval_design conv) (Xini ac1) ac1 of
             (Inl e, ac2) \<Rightarrow> (Inl e, ac2)
           | (Inr (X, ier), ac2) \<Rightarrow>
               if ier \<noteq> 1 then (Inl (Exception ''Convergence problem''), ac2)
               else (case eval_design conv (fst X, snd X) ac2 of
                       (Inl e, ac3) \<Rightarrow> (Inl e, ac3)
                     | (Inr r, ac3) \<Rightarrow> design_envelope conv ac3)))"

text \<open>
  \<open>operation\<close>: the residual function is the local function \<open>fct\<close>; it reads the
  aircraft and changes nothing.
\<close>

definition operation_fct ::
  "float64 \<Rightarrow> float64 \<Rightarrow> float64 \<Rightarrow> float64 \<times> float64 \<Rightarrow> aircraft
     \<Rightarrow> (error + float64 \<times> float64) \<times> aircraft" where
  "operation_fct conv n_pax rng x_in ac =
     (let tow = fst x_in; fuel = snd x_in
      in case mission conv tow fuel None ac of
           (Inl e, ac1) \<Rightarrow> (Inl e, ac1)
         | (Inr range_eff, ac1) \<Rightarrow>
             (let owe_eff = fsub tow (fadd (fmul (mpax ac1) n_pax)
                                           (fmul (fadd (Fin 1) (kr ac1)) fuel))
              in (Inr (fsub (owe ac1) owe_eff, fsub rng range_eff), ac1)))"

definition operation ::
  "float64 \<Rightarrow> (float64 \<times> float64) root_finder \<Rightarrow> nat \<Rightarrow> float64 \<Rightarrow> float64 \<Rightarrow> aircraft
     \<Rightarrow> (error + float64 \<times> float64 \<times> float64) \<times> aircraft" where
  "operation conv rf maxfev n_pax rng ac =
     (case fsolve maxfev rf (operation_fct conv n_pax rng) (Xini ac) ac of
        (Inl e, ac1) \<Rightarrow> (Inl e, ac1)
      | (Inr (x, ier), ac1) \<Rightarrow>
          if ier \<noteq> 1 then (Inl (Exception ''Convergence problem''), ac1)
          else (let tow = fst x; mission_fuel = snd x;
                    mission_time = fadd (fmul (Fin 20) (Fin 60)) (fmul (cruise_speed ac1) rng)
                in (Inr (mission_fuel, mission_time, tow), ac1)))"

section \<open>The electric fan nacelle\<close>

text \<open>
  The module \<open>earth\<close> (gas constants and the isentropic relations) is not part of
  the sources; the functions the nacelle takes from it are parameters, collected in
  a record.
\<close>

record earth =
  gas_data :: "float64 \<times> float64 \<times> float64 \<times> float64"
  sound_speed :: "float64 \<Rightarrow> float64"
  total_pressure :: "float64 \<Rightarrow> float64 \<Rightarrow> float64"
  total_temperature :: "float64 \<Rightarrow> float64 \<Rightarrow> float64"

text \<open>
  The attributes of \<open>Semi_empiric_ef_nacelle\<close> that the thrust methods read. The
  constructor leaves \<open>fan_width\<close> and \<open>nozzle_area\<close> at \<open>None\<close> until the nacelle is
  designed; arithmetic on \<open>None\<close> raises TypeError.
\<close>

record nacelle =
  reference_power :: float64
  rating_factor :: "string \<rightharpoonup> float64"
  efficiency_fan :: float64
  motor_efficiency :: float64
  controller_efficiency :: float64
  fan_width :: "float64 option"
  nozzle_area :: "float64 option"

definition dict_get :: "(string \<rightharpoonup> 'v) \<Rightarrow> string \<Rightarrow> error + 'v" where
  "dict_get d k = (case d k of None \<Rightarrow> Inl KeyError | Some v \<Rightarrow> Inr v)"

definition corrected_air_flow ::
  "earth \<Rightarrow> float64 \<Rightarrow> float64 \<Rightarrow> float64 \<Rightarrow> error + float64" where
  "corrected_air_flow ea Ptot Ttot Mach =
     (case gas_data ea of (r, gam, Cp, Cv) \<Rightarrow>
        bind_exc (py_div (fneg (fadd gam (Fin 1))) (fmul (Fin 2) (fsub gam (Fin 1)))) (\<lambda>ex.
        let f_m = fmul Mach (np_power (fadd (Fin 1)
                     (fmul (fmul (Fin 0.5) (fsub gam (Fin 1))) (np_power Mach (Fin 2)))) ex)
        in bind_exc (py_div gam r) (\<lambda>gr.
             Inr (fmul (np_div (fmul (np_sqrt gr) Ptot) (np_sqrt Ttot)) f_m))))"

text \<open>The residual function \<open>fct\<close> of \<open>unitary_thrust\<close>.\<close>

definition thrust_fct ::
  "earth \<Rightarrow> nacelle \<Rightarrow> float64 \<Rightarrow> float64 \<Rightarrow> float64 \<Rightarrow> float64 \<Rightarrow> float64
     \<Rightarrow> error + float64" where
  "thrust_fct ea nac q PwShaft pamb Ttot Vair =
     (case gas_data ea of (r, gam, Cp, Cv) \<Rightarrow>
        let Vinlet = Vair;
            PwInput = fmul (efficiency_fan nac) PwShaft;
            Vjet = np_sqrt (fadd (np_div (fmul (Fin 2) PwInput) q) (np_power Vinlet (Fin 2)));
            TtotJet = fadd Ttot (np_div PwShaft (fmul q Cp));
            TstatJet = fsub TtotJet (np_div (fmul (Fin 0.5) (np_power Vjet (Fin 2))) Cp);
            VsndJet = sound_speed ea TstatJet;
            MachJet = np_div Vjet VsndJet;
            PtotJet = total_pressure ea pamb MachJet
        in bind_exc (corrected_air_flow ea PtotJet TtotJet MachJet) (\<lambda>CQoA1.
             case nozzle_area nac of
               None \<Rightarrow> Inl TypeError
             | Some A \<Rightarrow> (let q0 = fmul CQoA1 A in Inr (fsub q0 q))))"

text \<open>
  \<open>unitary_thrust\<close> up to the call of the root-finder: shaft power, inlet total
  temperature, air speed and initial flow.
\<close>

definition thrust_setup ::
  "earth \<Rightarrow> nacelle \<Rightarrow> float64 \<Rightarrow> float64 \<Rightarrow> float64 \<Rightarrow> string \<Rightarrow> float64 \<Rightarrow> float64
     \<Rightarrow> error + (float64 \<times> float64 \<times> float64 \<times> float64)" where
  "thrust_setup ea nac pamb tamb mach rating throttle pw_offtake =
     bind_exc (dict_get (rating_factor nac) rating) (\<lambda>fac.
       let PwInput = fsub (fmul (fmul (reference_power nac) fac) throttle) pw_offtake;
           PwShaft = fmul (fmul PwInput (motor_efficiency nac)) (controller_efficiency nac);
           Ptot = total_pressure ea pamb mach;
           Ttot = total_temperature ea tamb mach;
           Vair = fmul mach (sound_speed ea tamb)
       in bind_exc (corrected_air_flow ea Ptot Ttot mach) (\<lambda>CQoA0.
            case fan_width nac of
              None \<Rightarrow> Inl TypeError
            | Some fw \<Rightarrow>
                (let q0init = fmul CQoA0 (fmul (fmul (Fin 0.25) (Fin pi)) (np_power fw (Fin 2)))
                 in Inr (PwShaft, Ttot, Vair, q0init))))"

record thrust_result =
  fn :: float64
  pw :: float64

definition unitary_thrust ::
  "earth \<Rightarrow> float64 root_finder \<Rightarrow> nat \<Rightarrow> nacelle \<Rightarrow> float64 \<Rightarrow> float64 \<Rightarrow> float64 \<Rightarrow> string
     \<Rightarrow> float64 \<Rightarrow> float64 \<Rightarrow> error + thrust_result" where
  "unitary_thrust ea rf maxfev nac pamb tamb mach rating throttle pw_offtake =
     bind_exc (thrust_setup ea nac pamb tamb mach rating throttle pw_offtake)
       (\<lambda>(PwShaft, Ttot, Vair, q0init).
          case fsolve maxfev rf (\<lambda>q u. (thrust_fct ea nac q PwShaft pamb Ttot Vair, u))
                 q0init () of
            (Inl e, u) \<Rightarrow> Inl e
          | (Inr (q0, ier), u) \<Rightarrow>
              if ier \<noteq> 1 then Inl (Exception ''Convergence problem'')
              else (let Vinlet = Vair;
                        PwInput = fmul (efficiency_fan nac) PwShaft;
                        Vjet = np_sqrt (fadd (np_div (fmul (Fin 2) PwInput) q0)
                                             (np_power Vinlet (Fin 2)));
                        eFn = fmul q0 (fsub Vjet Vinlet)
                    in Inr \<lparr>fn = eFn, pw = PwInput\<rparr>))"

text \<open>The residual function \<open>fct\<close> of \<open>unitary_sc\<close>: flow continuity and thrust matching.\<close>

definition sc_fct ::
  "earth \<Rightarrow> nacelle \<Rightarrow> float64 \<times> float64 \<Rightarrow> float64 \<Rightarrow> float64 \<Rightarrow> float64 \<Rightarrow> float64
     \<Rightarrow> error + float64 \<times> float64" where
  "sc_fct ea nac x_in thrust pamb Ttot Vair =
     (case gas_data ea of (r, gam, Cp, Cv) \<Rightarrow>
        let q = fst x_in;
            PwShaft = snd x_in;
            Vinlet = Vair;
            PwInput = fmul (efficiency_fan nac) PwShaft;
            Vjet = np_sqrt (fadd (np_div (fmul (Fin 2) PwInput) q) (np_power Vinlet (Fin 2)));
            TtotJet = fadd Ttot (np_div PwShaft (fmul q Cp));
            TstatJet = fsub TtotJet (np_div (fmul (Fin 0.5) (np_power Vjet (Fin 2))) Cp);
            VsndJet = sound_speed ea TstatJet;
            MachJet = np_div Vjet VsndJet;
            PtotJet = total_pressure ea pamb MachJet
        in bind_exc (corrected_air_flow ea PtotJet TtotJet MachJet) (\<lambda>CQoA1.
             case nozzle_area nac of
               None \<Rightarrow> Inl TypeError
             | Some A \<Rightarrow>
                 (let q0 = fmul CQoA1 A;
                      eFn = fmul q (fsub Vjet Vinlet)
                  in Inr (fsub q0 q, fsub thrust eFn))))"

text \<open>\<open>unitary_sc\<close> up to the call of the root-finder.\<close>

definition sc_setup ::
  "earth \<Rightarrow> nacelle \<Rightarrow> float64 \<Rightarrow> float64 \<Rightarrow> float64 \<Rightarrow> string \<Rightarrow> float64
     \<Rightarrow> error + (float64 \<times> float64 \<times> float64 \<times> float64)" where
  "sc_setup ea nac pamb tamb mach rating pw_offtake =
     (let Ptot = total_pressure ea pamb mach;
          Ttot = total_temperature ea tamb mach;
          Vair = fmul mach (sound_speed ea tamb)
      in bind_exc (corrected_air_flow ea Ptot Ttot mach) (\<lambda>CQoA0.
           case fan_width nac of
             None \<Rightarrow> Inl TypeError
           | Some fw \<Rightarrow>
               (let q0init = fmul CQoA0 (fmul (fmul (Fin 0.25) (Fin pi)) (np_power fw (Fin 2)))
                in bind_exc (dict_get (rating_factor nac) rating) (\<lambda>fac.
                     let PwInput = fsub (fmul (reference_power nac) fac) pw_offtake;
                         PWinit = fmul (fmul PwInput (motor_efficiency nac))
                                       (controller_efficiency nac)
                     in Inr (Ttot, Vair, q0init, PWinit)))))"

record sc_result =
  sec :: float64
  pw_sc :: float64
  thtl :: float64

definition unitary_sc ::
  "earth \<Rightarrow> (float64 \<times> float64) root_finder \<Rightarrow> nat \<Rightarrow> nacelle \<Rightarrow> float64 \<Rightarrow> float64
     \<Rightarrow> float64 \<Rightarrow> string \<Rightarrow> float64 \<Rightarrow> float64 \<Rightarrow> error + sc_result" where
  "unitary_sc ea rf maxfev nac pamb tamb mach rating thrust pw_offtake =
     bind_exc (sc_setup ea nac pamb tamb mach rating pw_offtake)
       (\<lambda>(Ttot, Vair, q0init, PWinit).
          case fsolve maxfev rf (\<lambda>x u. (sc_fct ea nac x thrust pamb Ttot Vair, u))
                 (q0init, PWinit) () of
            (Inl e, u) \<Rightarrow> Inl e
          | (Inr (x, ier), u) \<Rightarrow>
              if ier \<noteq> 1 then Inl (Exception ''Convergence problem'')
              else (let q0 = fst x;
                        Pw = snd x;
                        Vinlet = Vair;
                        PwInput = fmul (efficiency_fan nac) Pw;
                        Vjet = np_sqrt (fadd (np_div (fmul (Fin 2) PwInput) q0)
                                             (np_power Vinlet (Fin 2)));
                        eFn = fmul q0 (fsub Vjet Vinlet)
                    in bind_exc (dict_get (rating_factor nac) rating) (\<lambda>fac.
                         let throttle = np_div (fadd Pw pw_offtake)
                                               (fmul (reference_power nac) fac)
                         in Inr \<lparr>sec = np_div Pw eFn, pw_sc = Pw, thtl = throttle\<rparr>)))"

section \<open>Notions used to state the properties\<close>

text \<open>
  \<open>eval_design\<close> writes six attributes: \<open>mtow\<close>, \<open>fuel_mission\<close>,
  \<open>fuel_reserve\<close>, \<open>ldw\<close>, \<open>payload\<close> and \<open>owe\<close>. The frame of an aircraft is the
  aircraft with these six blanked out: what a residual evaluation reads and leaves alone.
\<close>

definition frame :: "aircraft \<Rightarrow> aircraft" where
  "frame ac = ac\<lparr>mtow := Fin 0, fuel_mission := Fin 0, fuel_reserve := Fin 0, ldw := Fin 0,
                 payload := Fin 0, owe := Fin 0\<rparr>"

text \<open>A residual is within the tolerance when it is a finite number of that magnitude.\<close>

definition small :: "real \<Rightarrow> float64 \<Rightarrow> bool" where
  "small tol r = (case r of Fin a \<Rightarrow> \<bar>a\<bar> \<le> tol | PInf \<Rightarrow> False | NInf \<Rightarrow> False | NaN \<Rightarrow> False)"

definition small2 :: "real \<Rightarrow> float64 \<times> float64 \<Rightarrow> bool" where
  "small2 tol r = (small tol (fst r) \<and> small tol (snd r))"

text \<open>
  What the specification takes convergence to mean (it calls a convergence failure
  "the root-finder does not reach the residual tolerance"): the flag 1 is given only
  with a point that was evaluated and whose residual passed the tolerance test
  \<open>ok\<close>. The program itself never looks at a residual; it only tests the flag.
\<close>

definition sound_root_finder :: "('x \<Rightarrow> bool) \<Rightarrow> 'x root_finder \<Rightarrow> bool" where
  "sound_root_finder ok rf =
     (\<forall>x0 hist x. rf x0 hist = Finish x 1 \<longrightarrow> (\<exists>r. (x, r) \<in> set hist \<and> ok r))"

text \<open>
  A small root-finder for concrete runs: it accepts the last evaluated point if its
  residual passes the test, tries the points of a list one after the other otherwise,
  and gives up with flag 5 at the end of the list.
\<close>

definition try_points :: "('x \<Rightarrow> bool) \<Rightarrow> 'x list \<Rightarrow> 'x root_finder" where
  "try_points ok pts x0 hist =
     (case hist of
        [] \<Rightarrow> Evaluate x0
      | e # es \<Rightarrow>
          (let x = fst (last hist); r = snd (last hist)
           in if ok r then Finish x 1
              else if length hist \<le> length pts then Evaluate (pts ! (length hist - 1))
              else Finish x 5))"

text \<open>
  Concrete inputs. One kg/daN/h is 1/36000 kg/N/s. The example aircraft has the
  attributes that the constructor sets for 150 passengers, 3000 NM and Mach 0.78
  at 35000 ft (10668 m); its masses and corner ranges stand for the results of an
  earlier design and are round numbers.
\<close>

definition kg_daN_h :: float64 where
  "kg_daN_h = Fin (1 / 36000)"

definition example_aircraft :: aircraft where
  "example_aircraft =
     \<lparr>cruise_altp = Fin 10668, cruise_mach = Fin 0.78, cruise_speed = Fin 231,
      range_ac = Fin 5556000, npax = Fin 150, mpax = Fin 130, payload = Fin 19500,
      mtow = Fin 77000, owe = Fin 41225, ldw = Fin 61500, fuel_mission = Fin 15500,
      fuel_reserve = Fin 775, kr = Fin 0.05,
      payload_max = Fin 23400, range_pl_max = Fin 4200000,
      payload_fuel_max = Fin 7800, range_fuel_max = Fin 9600000,
      range_no_pl = Fin 10500000,
      lod = Fin 19.5, sfc = Fin (0.54 / 36000), eff_ratio = Fin 1300000,
      owe_coef = [Fin (- 1.478 / 10 ^ 7), Fin 0.5459, Fin 840]\<rparr>"

text \<open>
  An instance of the missing module \<open>earth\<close>: air as a perfect gas with the
  isentropic relations, and a nacelle with the constants of the constructor, a fan of
  2 m and a nozzle as wide as the fan.
\<close>

definition isa_earth :: earth where
  "isa_earth =
     \<lparr>gas_data = (Fin 287.053, Fin 1.4, Fin 1004.6855, Fin 717.6325),
      sound_speed = (\<lambda>t. np_sqrt (fmul (fmul (Fin 1.4) (Fin 287.053)) t)),
      total_pressure = (\<lambda>p m. fmul p (np_power (fadd (Fin 1)
                                   (fmul (Fin 0.2) (np_power m (Fin 2)))) (Fin 3.5))),
      total_temperature = (\<lambda>t m. fmul t (fadd (Fin 1)
                                   (fmul (Fin 0.2) (np_power m (Fin 2)))))\<rparr>"

definition example_nacelle :: nacelle where
  "example_nacelle =
     \<lparr>reference_power = Fin 16000000,
      rating_factor = [''MTO'' \<mapsto> Fin 1, ''MCN'' \<mapsto> Fin 0.9, ''MCL'' \<mapsto> Fin 0.9,
                       ''MCR'' \<mapsto> Fin 0.9, ''FID'' \<mapsto> Fin 0.1, ''VAR'' \<mapsto> Fin 1],
      efficiency_fan = Fin 0.95, motor_efficiency = Fin 0.95,
      controller_efficiency = Fin 0.99,
      fan_width = Some (Fin 2), nozzle_area = Some (Fin pi)\<rparr>"

section \<open>The atmosphere at its ceiling\<close>

lemmas atmosphere_loop_unroll =
  atmosphere_loop.simps[of _ 0] atmosphere_loop.simps[of _ 1] atmosphere_loop.simps[of _ 2]
  atmosphere_loop.simps[of _ 3] atmosphere_loop.simps[of _ 4] atmosphere_loop.simps[of _ 5]

lemmas atmosphere_eval =
  atmosphere_def atmosphere_loop_unroll atmosphere_body_def bind_exc_def np_get_def np_set_def
  atm_Z_def atm_dtodz_def atm_P0_def atm_T0_def Let_def

text \<open>
  C7. The docstring of \<open>atmosphere\<close> promises the ambient data "from ground to
  50 km", and the guard rejects only altitudes above the last band limit. At exactly
  50000 m the loop test still holds for the last band, the loop advances once more and
  its next test reads \<open>Z[6]\<close> in a table of six entries: the call raises IndexError.
\<close>

theorem atmosphere_ceiling_index_error:
  "atmosphere (Fin 50000) disa = Inl IndexError"
  by (simp add: atmosphere_eval)

section \<open>Facts about the atmosphere, the residual evaluation and the root-finder\<close>

lemma atmosphere_above_ceiling:
  "50000 < h \<Longrightarrow> atmosphere (Fin h) disa = Inl (Exception ''atmosphere, altitude cannot exceed 50km'')"
  by (simp add: atmosphere_def bind_exc_def np_get_def atm_Z_def)

lemma atmosphere_below_ceiling:
  assumes "h < 50000"
  shows "\<exists>p t. 0 < t \<and> atmosphere (Fin h) (Fin d) =
           Inr (p, Fin (t + d), np_sqrt (fmul (fmul atm_gam atm_r) (Fin (t + d))), atm_g)"
proof -
  consider "h < 11000" | "11000 \<le> h" "h < 20000" | "20000 \<le> h" "h < 32000"
    | "32000 \<le> h" "h < 47000" | "47000 \<le> h" "h < 50000"
    using assms by linarith
  then show ?thesis
  proof cases
    case 1
    have "0 < 288.15 + (- 0.0065) * (h - 0)" using 1 by simp
    moreover have "\<exists>p. atmosphere (Fin h) (Fin d) = Inr (p, Fin (288.15 + (- 0.0065) * (h - 0) + d),
        np_sqrt (fmul (fmul atm_gam atm_r) (Fin (288.15 + (- 0.0065) * (h - 0) + d))), atm_g)"
      using 1 by (simp add: atmosphere_eval)
    ultimately show ?thesis by blast
  next
    case 2
    have "(0::real) < 216.65" by simp
    moreover have "\<exists>p. atmosphere (Fin h) (Fin d) = Inr (p, Fin (216.65 + d),
        np_sqrt (fmul (fmul atm_gam atm_r) (Fin (216.65 + d))), atm_g)"
      using 2 by (simp add: atmosphere_eval)
    ultimately show ?thesis by blast
  next
    case 3
    have "0 < 216.65 + 0.001 * (h - 20000)" using 3 by (simp add: field_simps)
    moreover have "\<exists>p. atmosphere (Fin h) (Fin d) = Inr (p, Fin (216.65 + 0.001 * (h - 20000) + d),
        np_sqrt (fmul (fmul atm_gam atm_r) (Fin (216.65 + 0.001 * (h - 20000) + d))), atm_g)"
      using 3 by (simp add: atmosphere_eval)
    ultimately show ?thesis by blast
  next
    case 4
    have "0 < 228.65 + 0.0028 * (h - 32000)" using 4 by (simp add: field_simps)
    moreover have "\<exists>p. atmosphere (Fin h) (Fin d) = Inr (p, Fin (228.65 + 0.0028 * (h - 32000) + d),
        np_sqrt (fmul (fmul atm_gam atm_r) (Fin (228.65 + 0.0028 * (h - 32000) + d))), atm_g)"
      using 4 by (simp add: atmosphere_eval)
    ultimately show ?thesis by blast
  next
    case 5
    have "(0::real) < 270.65" by simp
    moreover have "\<exists>p. atmosphere (Fin h) (Fin d) = Inr (p, Fin (270.65 + d),
        np_sqrt (fmul (fmul atm_gam atm_r) (Fin (270.65 + d))), atm_g)"
      using 5 by (simp add: atmosphere_eval)
    ultimately show ?thesis by blast
  qed
qed

text \<open>Below the ceiling the speed of sound at standard temperature is a positive number.\<close>

lemma atmosphere_vsnd:
  assumes "h < 50000"
  shows "\<exists>p t v. 0 < v \<and> atmosphere (Fin h) (Fin 0) = Inr (p, t, Fin v, Fin 9.80665)"
proof -
  from atmosphere_below_ceiling[OF assms, of 0] obtain p t where t: "0 < t"
    and a: "atmosphere (Fin h) (Fin 0) =
           Inr (p, Fin (t + 0), np_sqrt (fmul (fmul atm_gam atm_r) (Fin (t + 0))), atm_g)"
    by blast
  have "np_sqrt (fmul (fmul atm_gam atm_r) (Fin (t + 0))) = Fin (sqrt (1.4 * 287.053 * t))"
    using t by (simp add: atm_gam_def atm_r_def)
  moreover have "0 < sqrt (1.4 * 287.053 * t)" using t by simp
  ultimately show ?thesis using a by (auto simp: atm_g_def)
qed

lemma atmosphere_returns_below:
  assumes "atmosphere (Fin h) disa = Inr x"
  shows "h < 50000"
proof (rule ccontr)
  assume "\<not> h < 50000"
  then consider "h = 50000" | "50000 < h" by linarith
  then show False
  proof cases
    case 1
    then show False using assms by (simp add: atmosphere_eval)
  next
    case 2
    then show False using assms atmosphere_above_ceiling[OF 2, of disa] by simp
  qed
qed

subsection \<open>What the methods write\<close>

lemma structure_ac_None_state: "snd (structure_ac m None ac) = ac"
  by (simp add: structure_ac_def)

lemma mission_None_state: "snd (mission conv tow fuel None ac) = ac"
  by (simp add: mission_def)

lemma eval_design_frame: "frame (snd (eval_design conv X ac)) = frame ac"
  by (simp add: eval_design_def Let_def structure_ac_def mission_def frame_def
           split: sum.splits prod.splits)

lemma eval_design_via_frame:
  "fst (eval_design conv X (frame ac)) = fst (eval_design conv X ac)"
  by (simp add: eval_design_def Let_def structure_ac_def mission_def frame_def bind_exc_def
           split: sum.splits prod.splits)

lemma eval_design_depends:
  "frame ac1 = frame ac2 \<Longrightarrow> fst (eval_design conv X ac1) = fst (eval_design conv X ac2)"
  using eval_design_via_frame[of conv X ac1] eval_design_via_frame[of conv X ac2] by simp

lemma eval_design_Inr:
  assumes "eval_design conv X ac = (Inr r, ac')"
  shows "ac' = ac\<lparr>mtow := fst X, fuel_mission := snd X,
                  fuel_reserve := fmul (kr ac) (snd X),
                  ldw := fsub (fst X) (snd X),
                  payload := fmul (npax ac) (mpax ac),
                  owe := fsub (fsub (fsub (fst X) (fmul (npax ac) (mpax ac))) (snd X))
                              (fmul (kr ac) (snd X))\<rparr>"
    and "\<exists>owe_eff range_eff.
           fst (structure_ac (fst X) None ac') = Inr owe_eff \<and>
           fst (mission conv (fst X) (snd X) None ac') = Inr range_eff \<and>
           r = (fsub (owe ac') owe_eff, fsub (range_ac ac') range_eff)"
  using assms
  by (auto simp: eval_design_def Let_def structure_ac_def mission_def bind_exc_def
           split: sum.splits prod.splits)

subsection \<open>Runs of the root-finder\<close>

lemma fsolve_iter_key:
  assumes "\<And>x s. key (snd (func x s)) = key s"
  shows "key (snd (fsolve_iter n rf func x0 hist s)) = key s"
proof (induction n arbitrary: hist s)
  case 0
  show ?case by (simp split: action.splits)
next
  case (Suc n)
  show ?case
  proof (cases "rf x0 hist")
    case (Finish x ier)
    then show ?thesis by simp
  next
    case (Evaluate x)
    show ?thesis
    proof (cases "func x s")
      case (Pair res s')
      have k: "key s' = key s" using assms[of x s] Pair by simp
      show ?thesis
      proof (cases res)
        case (Inl e)
        then show ?thesis using Evaluate Pair k by simp
      next
        case (Inr r)
        then show ?thesis using Evaluate Pair k Suc.IH[of "hist @ [(x, r)]" s'] by simp
      qed
    qed
  qed
qed

lemma fsolve_key:
  assumes "\<And>x s. key (snd (func x s)) = key s"
  shows "key (snd (fsolve n rf func x0 s)) = key s"
proof (cases "func x0 s")
  case (Pair res s')
  have k: "key s' = key s" using assms[of x0 s] Pair by simp
  show ?thesis
  proof (cases res)
    case (Inl e)
    then show ?thesis using Pair k by (simp add: fsolve_def)
  next
    case (Inr r)
    then show ?thesis using Pair k fsolve_iter_key[of key func n rf x0 "[(x0, r)]" s', OF assms]
      by (simp add: fsolve_def)
  qed
qed

lemma fsolve_iter_sound:
  assumes snd: "sound_root_finder ok rf"
    and key: "\<And>x s. key (snd (func x s)) = key s"
    and dep: "\<And>x s1 s2. key s1 = key s2 \<Longrightarrow> fst (func x s1) = fst (func x s2)"
    and hist: "\<forall>(x, r) \<in> set hist. fst (func x s) = Inr r"
    and res: "fsolve_iter n rf func x0 hist s = (Inr (x, 1), s')"
  shows "\<exists>r. fst (func x s') = Inr r \<and> ok r"
  using hist res
proof (induction n arbitrary: hist s)
  case 0
  show ?case
  proof (cases "rf x0 hist")
    case (Finish y ier)
    with 0 have "y = x" "ier = 1" "s' = s" by simp_all
    with Finish snd obtain r where "(x, r) \<in> set hist" "ok r"
      unfolding sound_root_finder_def by blast
    with 0 \<open>s' = s\<close> show ?thesis by auto
  next
    case (Evaluate y)
    with 0 show ?thesis by simp
  qed
next
  case (Suc n)
  show ?case
  proof (cases "rf x0 hist")
    case (Finish y ier)
    with Suc.prems have "y = x" "ier = 1" "s' = s" by simp_all
    with Finish snd obtain r where "(x, r) \<in> set hist" "ok r"
      unfolding sound_root_finder_def by blast
    with Suc.prems \<open>s' = s\<close> show ?thesis by auto
  next
    case (Evaluate y)
    show ?thesis
    proof (cases "func y s")
      case (Pair res1 s1)
      have k: "key s1 = key s" using key[of y s] Pair by simp
      show ?thesis
      proof (cases res1)
        case (Inl e)
        with Evaluate Pair Suc.prems show ?thesis by simp
      next
        case (Inr r)
        have h: "\<forall>(x, r) \<in> set (hist @ [(y, r)]). fst (func x s1) = Inr r"
          using Suc.prems(1) dep[OF k] Pair Inr by auto
        have "fsolve_iter n rf func x0 (hist @ [(y, r)]) s1 = (Inr (x, 1), s')"
          using Suc.prems(2) Evaluate Pair Inr by simp
        from Suc.IH[OF h this] show ?thesis .
      qed
    qed
  qed
qed

lemma fsolve_sound:
  assumes snd: "sound_root_finder ok rf"
    and key: "\<And>x s. key (snd (func x s)) = key s"
    and dep: "\<And>x s1 s2. key s1 = key s2 \<Longrightarrow> fst (func x s1) = fst (func x s2)"
    and res: "fsolve n rf func x0 s = (Inr (x, 1), s')"
  shows "\<exists>r. fst (func x s') = Inr r \<and> ok r"
proof (cases "func x0 s")
  case (Pair res1 s1)
  show ?thesis
  proof (cases res1)
    case (Inl e)
    with Pair res show ?thesis by (simp add: fsolve_def)
  next
    case (Inr r)
    have h: "\<forall>(x, r) \<in> set [(x0, r)]. fst (func x s1) = Inr r"
      using dep[OF key[of x0 s]] Pair Inr by simp
    have "fsolve_iter n rf func x0 [(x0, r)] s1 = (Inr (x, 1), s')"
      using res Pair Inr by (simp add: fsolve_def)
    from fsolve_iter_sound[OF snd key dep h this] show ?thesis by simp
  qed
qed

text \<open>The state after a run that returned is the state after a residual evaluation.\<close>

lemma fsolve_iter_last_eval:
  assumes "fsolve_iter n rf func x0 hist s = (Inr res, s')"
    and "\<exists>y s0 r. func y s0 = (Inr r, s)"
  shows "\<exists>y s0 r. func y s0 = (Inr r, s')"
  using assms
proof (induction n arbitrary: hist s)
  case 0
  then show ?case by (auto split: action.splits)
next
  case (Suc n)
  show ?case
  proof (cases "rf x0 hist")
    case (Finish y ier)
    with Suc.prems show ?thesis by auto
  next
    case (Evaluate y)
    show ?thesis
    proof (cases "func y s")
      case (Pair res1 s1)
      show ?thesis
      proof (cases res1)
        case (Inl e)
        with Evaluate Pair Suc.prems show ?thesis by simp
      next
        case (Inr r)
        have "fsolve_iter n rf func x0 (hist @ [(y, r)]) s1 = (Inr res, s')"
          using Suc.prems(1) Evaluate Pair Inr by simp
        moreover have "\<exists>y s0 r. func y s0 = (Inr r, s1)" using Pair Inr by blast
        ultimately show ?thesis using Suc.IH by blast
      qed
    qed
  qed
qed

lemma fsolve_last_eval:
  assumes "fsolve n rf func x0 s = (Inr res, s')"
  shows "\<exists>y s0 r. func y s0 = (Inr r, s')"
proof (cases "func x0 s")
  case (Pair res1 s1)
  show ?thesis
  proof (cases res1)
    case (Inl e)
    with Pair assms show ?thesis by (simp add: fsolve_def)
  next
    case (Inr r)
    have "fsolve_iter n rf func x0 [(x0, r)] s1 = (Inr res, s')"
      using assms Pair Inr by (simp add: fsolve_def)
    moreover have "\<exists>y s0 r. func y s0 = (Inr r, s1)" using Pair Inr by blast
    ultimately show ?thesis by (rule fsolve_iter_last_eval)
  qed
qed

lemma try_points_sound: "sound_root_finder ok (try_points ok pts)"
  unfolding sound_root_finder_def
proof (intro allI impI)
  fix x0 :: 'a and hist :: "('a \<times> 'a) list" and x
  assume f: "try_points ok pts x0 hist = Finish x 1"
  then have ne: "hist \<noteq> []" by (auto simp: try_points_def)
  with f have "x = fst (last hist)" "ok (snd (last hist))"
    by (auto simp: try_points_def Let_def split: list.splits if_splits)
  moreover have "last hist \<in> set hist" using ne by simp
  ultimately show "\<exists>r. (x, r) \<in> set hist \<and> ok r"
    by (metis prod.collapse)
qed

lemma fmul_NaN_right: "fmul x NaN = NaN"
  by (cases x) simp_all

section \<open>The range relation at a negative landing weight\<close>

text \<open>
  C3, as stated: for \<open>fuel_mission \<ge> tow\<close> the Breguet relation raises. It does
  not: \<open>mission\<close> has no test on the landing weight. For the example aircraft, a
  take-off weight of 50 t and a mission fuel of 60 t, the call returns nan.
\<close>

theorem mission_negative_landing_weight_counterexample:
  "mission kg_daN_h (Fin 50000) (Fin 60000) None example_aircraft = (Inr NaN, example_aircraft)"
  by (simp add: mission_def example_aircraft_def atmosphere_eval atm_gam_def atm_r_def atm_g_def)

text \<open>
  C3, amended: for a positive take-off weight below the mission fuel (a negative
  landing weight) \<open>mission\<close> raises only what its call of \<open>atmosphere\<close> raises;
  whenever that call returns, \<open>mission\<close> returns nan, the logarithm of a negative
  number, and leaves the aircraft as it was.
\<close>

theorem mission_nan_below_zero_landing_weight:
  assumes "0 < tow" and "tow < fuel"
  shows "mission conv (Fin tow) (Fin fuel) None ac =
           ((case atmosphere (cruise_altp ac) (Fin 0) of
               Inl e \<Rightarrow> Inl e
             | Inr a \<Rightarrow> Inr NaN), ac)"
proof -
  have "tow / (tow - fuel) < 0" using assms by (simp add: divide_pos_neg)
  then have "np_log (np_div (Fin tow) (fsub (Fin tow) (Fin fuel))) = NaN"
    using assms by simp
  then show ?thesis
    by (simp add: mission_def bind_exc_def fmul_NaN_right split: sum.splits prod.splits)
qed

theorem mission_nan_below_zero_landing_weight_witness:
  "(0::real) < 60000 \<and> (60000::real) < 70000 \<and>
   mission kg_daN_h (Fin 60000) (Fin 70000) None example_aircraft = (Inr NaN, example_aircraft)"
proof -
  have a: "(0::real) < 60000" and b: "(60000::real) < 70000" by simp_all
  obtain v where "atmosphere (cruise_altp example_aircraft) (Fin 0) = Inr v"
    using atmosphere_vsnd[of 10668] by (auto simp: example_aircraft_def)
  then show ?thesis
    using mission_nan_below_zero_landing_weight[OF a b, of kg_daN_h example_aircraft] by simp
qed

section \<open>The capacity lookup\<close>

text \<open>
  C9, as stated: for any aircraft whose corners are ordered, \<open>max_capacity\<close> returns
  for every range. The invariant on the corners leaves the mass per passenger free: with
  \<open>mpax = 0\<close> and the corners of the example aircraft the first branch divides
  two Python floats by zero.
\<close>

theorem max_capacity_zero_mpax_counterexample:
  "max_capacity (Fin 1000000) (example_aircraft\<lparr>mpax := Fin 0\<rparr>) = Inl ZeroDivisionError"
  by (simp add: max_capacity_def example_aircraft_def py_div_def bind_exc_def)

lemma max_capacity_Fin:
  assumes "range_pl_max ac = Fin r1" "range_fuel_max ac = Fin r2" "range_no_pl ac = Fin r3"
    "payload_max ac = Fin pm" "payload_fuel_max ac = Fin pf" "mpax ac = Fin w"
    "r1 < r2" "r2 < r3" "0 < w"
  shows "max_capacity (Fin x) ac =
     Inr (Fin (if x \<le> r1 then of_int \<lfloor>pm / w\<rfloor>
               else if x \<le> r2 then of_int \<lfloor>(pf + (pm - pf) * (x - r2) / (r1 - r2)) / w\<rfloor>
               else if x \<le> r3 then of_int \<lfloor>(pf * (x - r3) / (r2 - r3)) / w\<rfloor>
               else 0))"
  using assms by (simp add: max_capacity_def py_div_def bind_exc_def Let_def)

lemma interp_payload_antimono:
  fixes r1 r2 r3 pm pf :: real
  assumes "r1 < r2" "r2 < r3" "pf \<le> pm" "0 \<le> pf" "x \<le> y"
  shows "(if y \<le> r1 then pm
          else if y \<le> r2 then pf + (pm - pf) * (y - r2) / (r1 - r2)
          else if y \<le> r3 then pf * (y - r3) / (r2 - r3)
          else 0)
       \<le> (if x \<le> r1 then pm
          else if x \<le> r2 then pf + (pm - pf) * (x - r2) / (r1 - r2)
          else if x \<le> r3 then pf * (x - r3) / (r2 - r3)
          else 0)"
proof -
  have unit_nonneg: "0 \<le> d * u \<and> d * u \<le> d" if "0 \<le> d" "0 \<le> u" "u \<le> 1" for d u :: real
  proof -
    have "0 \<le> d * u" using that by (intro mult_nonneg_nonneg)
    moreover have "d * u \<le> d * 1" using that by (intro mult_left_mono)
    ultimately show ?thesis by simp
  qed
  have seg2: "pf \<le> pf + (pm - pf) * (t - r2) / (r1 - r2) \<and> pf + (pm - pf) * (t - r2) / (r1 - r2) \<le> pm"
    if "r1 \<le> t" "t \<le> r2" for t
  proof -
    define u where "u = (t - r2) / (r1 - r2)"
    have "0 \<le> u" unfolding u_def using that assms by (simp add: divide_nonpos_neg)
    moreover have "u \<le> 1" unfolding u_def using that assms by (simp add: field_simps)
    ultimately have "0 \<le> (pm - pf) * u \<and> (pm - pf) * u \<le> pm - pf"
      using unit_nonneg[of "pm - pf" u] assms by simp
    moreover have "(pm - pf) * (t - r2) / (r1 - r2) = (pm - pf) * u" by (simp add: u_def)
    ultimately show ?thesis by simp
  qed
  have seg3: "0 \<le> pf * (t - r3) / (r2 - r3) \<and> pf * (t - r3) / (r2 - r3) \<le> pf"
    if "r2 \<le> t" "t \<le> r3" for t
  proof -
    define u where "u = (t - r3) / (r2 - r3)"
    have "0 \<le> u" unfolding u_def using that assms by (simp add: divide_nonpos_neg)
    moreover have "u \<le> 1" unfolding u_def using that assms by (simp add: field_simps)
    ultimately have "0 \<le> pf * u \<and> pf * u \<le> pf"
      using unit_nonneg[of pf u] assms by simp
    moreover have "pf * (t - r3) / (r2 - r3) = pf * u" by (simp add: u_def)
    ultimately show ?thesis by simp
  qed
  have mono2: "pf + (pm - pf) * (t - r2) / (r1 - r2) \<le> pf + (pm - pf) * (s - r2) / (r1 - r2)"
    if "s \<le> t" for s t
  proof -
    define u where "u = (t - r2) / (r1 - r2)"
    define v where "v = (s - r2) / (r1 - r2)"
    have "u \<le> v" unfolding u_def v_def
      using that assms by (simp add: divide_right_mono_neg)
    then have "(pm - pf) * u \<le> (pm - pf) * v"
      using assms by (intro mult_left_mono) simp_all
    moreover have "(pm - pf) * (t - r2) / (r1 - r2) = (pm - pf) * u" by (simp add: u_def)
    moreover have "(pm - pf) * (s - r2) / (r1 - r2) = (pm - pf) * v" by (simp add: v_def)
    ultimately show ?thesis by simp
  qed
  have mono3: "pf * (t - r3) / (r2 - r3) \<le> pf * (s - r3) / (r2 - r3)"
    if "s \<le> t" for s t
  proof -
    define u where "u = (t - r3) / (r2 - r3)"
    define v where "v = (s - r3) / (r2 - r3)"
    have "u \<le> v" unfolding u_def v_def
      using that assms by (simp add: divide_right_mono_neg)
    then have "pf * u \<le> pf * v"
      using assms by (intro mult_left_mono) simp_all
    moreover have "pf * (t - r3) / (r2 - r3) = pf * u" by (simp add: u_def)
    moreover have "pf * (s - r3) / (r2 - r3) = pf * v" by (simp add: v_def)
    ultimately show ?thesis by simp
  qed
  consider "y \<le> r1" | "r1 < y" "y \<le> r2" | "r2 < y" "y \<le> r3" | "r3 < y" by linarith
  then show ?thesis
  proof cases
    case 1
    then show ?thesis using assms by simp
  next
    case 2
    consider "x \<le> r1" | "r1 < x" by linarith
    then show ?thesis
    proof cases
      case 1
      then show ?thesis using 2 seg2[of y] by simp
    next
      case 2
      then show ?thesis using \<open>r1 < y\<close> \<open>y \<le> r2\<close> assms mono2[of x y] by simp
    qed
  next
    case 3
    consider "x \<le> r1" | "r1 < x" "x \<le> r2" | "r2 < x" by linarith
    then show ?thesis
    proof cases
      case 1
      then show ?thesis using 3 assms seg3[of y] by simp
    next
      case 2
      then show ?thesis using 3 assms seg3[of y] seg2[of x] by simp
    next
      case 3
      then show ?thesis using \<open>r2 < y\<close> \<open>y \<le> r3\<close> assms mono3[of x y] by simp
    qed
  next
    case 4
    consider "x \<le> r1" | "r1 < x" "x \<le> r2" | "r2 < x" "x \<le> r3" | "r3 < x" by linarith
    then show ?thesis
    proof cases
      case 1
      then show ?thesis using 4 assms by simp
    next
      case 2
      then show ?thesis using 4 assms seg2[of x] by simp
    next
      case 3
      then show ?thesis using 4 assms seg3[of x] by simp
    next
      case 4
      then show ?thesis using \<open>r3 < y\<close> assms by simp
    qed
  qed
qed


lemma max_capacity_Fin_floor:
  assumes "range_pl_max ac = Fin r1" "range_fuel_max ac = Fin r2" "range_no_pl ac = Fin r3"
    "payload_max ac = Fin pm" "payload_fuel_max ac = Fin pf" "mpax ac = Fin w"
    "r1 < r2" "r2 < r3" "0 < w"
  shows "max_capacity (Fin x) ac =
     Inr (Fin (of_int \<lfloor>(if x \<le> r1 then pm
               else if x \<le> r2 then pf + (pm - pf) * (x - r2) / (r1 - r2)
               else if x \<le> r3 then pf * (x - r3) / (r2 - r3)
               else 0) / w\<rfloor>))"
  using max_capacity_Fin[OF assms, of x] by simp

lemma max_capacity_infinite:
  assumes "range_pl_max ac = Fin r1" "range_fuel_max ac = Fin r2" "range_no_pl ac = Fin r3"
    "payload_max ac = Fin pm" "payload_fuel_max ac = Fin pf" "mpax ac = Fin w" "0 < w"
  shows "max_capacity NInf ac = Inr (Fin (of_int \<lfloor>pm / w\<rfloor>))"
    and "max_capacity PInf ac = Inr (Fin 0)"
    and "max_capacity NaN ac = Inr (Fin 0)"
  using assms by (simp_all add: max_capacity_def py_div_def bind_exc_def Let_def)

text \<open>
  C9, amended: for an aircraft with a positive mass per passenger whose corners are
  finite and ordered (\<open>range_pl_max < range_fuel_max < range_no_pl\<close>,
  \<open>payload_max \<ge> payload_fuel_max \<ge> 0\<close>), \<open>max_capacity\<close> returns for every
  range without raising, is non-increasing in the range, and is the floor of
  \<open>payload_max/mpax\<close> up to \<open>range_pl_max\<close>, the floor of the linear
  interpolation of the corner payloads, divided by \<open>mpax\<close>, between the corners,
  and 0 beyond \<open>range_no_pl\<close>.
\<close>

theorem max_capacity_total_monotone:
  assumes c: "range_pl_max ac = Fin r1" "range_fuel_max ac = Fin r2" "range_no_pl ac = Fin r3"
    "payload_max ac = Fin pm" "payload_fuel_max ac = Fin pf" "mpax ac = Fin w"
    and o: "r1 < r2" "r2 < r3" and p: "pf \<le> pm" "0 \<le> pf" and w: "0 < w"
  shows "(\<forall>rng. \<exists>cap. max_capacity rng ac = Inr cap)
    \<and> (\<forall>a b ca cb. fle a b \<and> max_capacity a ac = Inr ca \<and> max_capacity b ac = Inr cb
          \<longrightarrow> fle cb ca)
    \<and> (\<forall>x. max_capacity (Fin x) ac =
          Inr (Fin (if x \<le> r1 then of_int \<lfloor>pm / w\<rfloor>
                    else if x \<le> r2
                    then of_int \<lfloor>(pf + (pm - pf) * (x - r2) / (r1 - r2)) / w\<rfloor>
                    else if x \<le> r3 then of_int \<lfloor>(pf * (x - r3) / (r2 - r3)) / w\<rfloor>
                    else 0)))"
proof -
  define P where "P = (\<lambda>x. if x \<le> r1 then pm
               else if x \<le> r2 then pf + (pm - pf) * (x - r2) / (r1 - r2)
               else if x \<le> r3 then pf * (x - r3) / (r2 - r3)
               else 0)"
  have fin: "max_capacity (Fin x) ac = Inr (Fin (of_int \<lfloor>P x / w\<rfloor>))" for x
    unfolding P_def by (rule max_capacity_Fin_floor[OF c o w])
  note inf = max_capacity_infinite[OF c w]
  have anti: "P y \<le> P x" if "x \<le> y" for x y
    unfolding P_def by (rule interp_payload_antimono[OF o p that])
  have cap_anti: "(of_int \<lfloor>P y / w\<rfloor> :: real) \<le> of_int \<lfloor>P x / w\<rfloor>" if "x \<le> y" for x y
  proof -
    have "P y / w \<le> P x / w" using anti[OF that] w by (simp add: divide_right_mono)
    then show ?thesis by (simp add: floor_mono)
  qed
  have top: "P x \<le> pm" for x
    using anti[of "min x r1" x] by (simp add: P_def)
  have bot: "0 \<le> P x" for x
    using anti[of x "max x (r3 + 1)"] o by (simp add: P_def)
  have cap_top: "(of_int \<lfloor>P x / w\<rfloor> :: real) \<le> of_int \<lfloor>pm / w\<rfloor>" for x
  proof -
    have "P x / w \<le> pm / w" using top[of x] w by (simp add: divide_right_mono)
    then show ?thesis by (simp add: floor_mono)
  qed
  have cap_bot: "(0::real) \<le> of_int \<lfloor>P x / w\<rfloor>" for x
    using bot[of x] w by simp
  have pm0: "(0::real) \<le> of_int \<lfloor>pm / w\<rfloor>" using p w by simp
  have total: "\<exists>cap. max_capacity rng ac = Inr cap" for rng
    by (cases rng) (simp_all add: fin inf)
  have mono: "fle cb ca"
    if "fle a b" "max_capacity a ac = Inr ca" "max_capacity b ac = Inr cb" for a b ca cb
  proof (cases a)
    case (Fin x)
    show ?thesis
    proof (cases b)
      case (Fin y)
      with \<open>a = Fin x\<close> that cap_anti[of x y] show ?thesis by (auto simp: fin)
    next
      case PInf
      with \<open>a = Fin x\<close> that cap_bot[of x] show ?thesis by (auto simp: fin inf)
    next
      case NInf
      with \<open>a = Fin x\<close> that show ?thesis by simp
    next
      case NaN
      with \<open>a = Fin x\<close> that show ?thesis by simp
    qed
  next
    case PInf
    with that show ?thesis by (cases b) (auto simp: inf)
  next
    case NInf
    show ?thesis
    proof (cases b)
      case (Fin y)
      with NInf that cap_top[of y] show ?thesis by (auto simp: fin inf)
    next
      case PInf
      with NInf that pm0 show ?thesis by (auto simp: inf)
    next
      case NInf
      with \<open>a = NInf\<close> that show ?thesis by (auto simp: inf)
    next
      case NaN
      with NInf that show ?thesis by simp
    qed
  next
    case NaN
    with that show ?thesis by simp
  qed
  have vals: "max_capacity (Fin x) ac =
          Inr (Fin (if x \<le> r1 then of_int \<lfloor>pm / w\<rfloor>
                    else if x \<le> r2
                    then of_int \<lfloor>(pf + (pm - pf) * (x - r2) / (r1 - r2)) / w\<rfloor>
                    else if x \<le> r3 then of_int \<lfloor>(pf * (x - r3) / (r2 - r3)) / w\<rfloor>
                    else 0))" for x
    by (rule max_capacity_Fin[OF c o w])
  from total mono vals show ?thesis by blast
qed

theorem max_capacity_total_monotone_witness:
  "(\<forall>rng. \<exists>cap. max_capacity rng example_aircraft = Inr cap)
   \<and> fle (Fin 6900000) (Fin 10050000) \<and> fle (Fin 30) (Fin 120)
   \<and> max_capacity (Fin 4000000) example_aircraft = Inr (Fin 180)
   \<and> max_capacity (Fin 6900000) example_aircraft = Inr (Fin 120)
   \<and> max_capacity (Fin 10050000) example_aircraft = Inr (Fin 30)
   \<and> max_capacity (Fin 11000000) example_aircraft = Inr (Fin 0)"
proof -
  have c: "range_pl_max example_aircraft = Fin 4200000"
    "range_fuel_max example_aircraft = Fin 9600000"
    "range_no_pl example_aircraft = Fin 10500000"
    "payload_max example_aircraft = Fin 23400"
    "payload_fuel_max example_aircraft = Fin 7800"
    "mpax example_aircraft = Fin 130"
    by (simp_all add: example_aircraft_def)
  have o: "(4200000::real) < 9600000" "(9600000::real) < 10500000"
    and p: "(7800::real) \<le> 23400" "(0::real) \<le> 7800" and w: "(0::real) < 130"
    by simp_all
  note t = max_capacity_total_monotone[OF c o p w]
  from t have v: "max_capacity (Fin x) example_aircraft =
          Inr (Fin (if x \<le> 4200000 then of_int \<lfloor>23400 / 130 :: real\<rfloor>
                    else if x \<le> 9600000
                    then of_int \<lfloor>(7800 + (23400 - 7800) * (x - 9600000) / (4200000 - 9600000)) / 130\<rfloor>
                    else if x \<le> 10500000 then of_int \<lfloor>(7800 * (x - 10500000) / (9600000 - 10500000)) / 130\<rfloor>
                    else 0))" for x
    by blast
  have "max_capacity (Fin 4000000) example_aircraft = Inr (Fin 180)"
    "max_capacity (Fin 6900000) example_aircraft = Inr (Fin 120)"
    "max_capacity (Fin 10050000) example_aircraft = Inr (Fin 30)"
    "max_capacity (Fin 11000000) example_aircraft = Inr (Fin 0)"
    by (simp_all add: v)
  with t show ?thesis by simp
qed

section \<open>Optional arguments that persist\<close>

subsection \<open>What \<open>design_aircraft\<close> and \<open>operation\<close> write\<close>

lemma design_envelope_fields:
  assumes "design_envelope conv ac = (res, ac')"
  shows "owe_coef ac' = owe_coef ac \<and> eff_ratio ac' = eff_ratio ac \<and> kr ac' = kr ac
       \<and> mpax ac' = mpax ac \<and> npax ac' = npax ac \<and> mtow ac' = mtow ac \<and> owe ac' = owe ac
       \<and> fuel_mission ac' = fuel_mission ac \<and> fuel_reserve ac' = fuel_reserve ac
       \<and> ldw ac' = ldw ac \<and> payload ac' = payload ac \<and> cruise_altp ac' = cruise_altp ac
       \<and> cruise_mach ac' = cruise_mach ac \<and> range_ac ac' = range_ac ac \<and> sfc ac' = sfc ac"
  using assms
  by (auto simp: design_envelope_def Let_def mission_def split: sum.splits prod.splits)

lemma fsolve_eval_design_frame:
  "frame (snd (fsolve n rf (eval_design conv) x0 ac)) = frame ac"
  by (rule fsolve_key) (rule eval_design_frame)

lemma frame_fields:
  "frame a = frame b \<Longrightarrow>
     owe_coef a = owe_coef b \<and> eff_ratio a = eff_ratio b \<and> kr a = kr b \<and> mpax a = mpax b
   \<and> npax a = npax b \<and> cruise_altp a = cruise_altp b \<and> cruise_mach a = cruise_mach b
   \<and> range_ac a = range_ac b \<and> sfc a = sfc b \<and> lod a = lod b
   \<and> cruise_speed a = cruise_speed b \<and> payload_max a = payload_max b
   \<and> range_pl_max a = range_pl_max b \<and> payload_fuel_max a = payload_fuel_max b
   \<and> range_fuel_max a = range_fuel_max b \<and> range_no_pl a = range_no_pl b"
  unfolding frame_def
  by (cases a, cases b) simp

text \<open>After the first lines of \<open>design_aircraft\<close> nothing writes \<open>owe_coef\<close> or \<open>eff_ratio\<close>.\<close>

lemma design_aircraft_after_setup:
  assumes "design_setup conv coef k w e ac = (Inr u, ac1)"
  shows "owe_coef (snd (design_aircraft conv rf n coef k w e ac)) = owe_coef ac1
       \<and> eff_ratio (snd (design_aircraft conv rf n coef k w e ac)) = eff_ratio ac1"
proof -
  obtain res ac2 where f: "fsolve n rf (eval_design conv) (Xini ac1) ac1 = (res, ac2)"
    by (cases "fsolve n rf (eval_design conv) (Xini ac1) ac1")
  have "frame ac2 = frame ac1" using fsolve_eval_design_frame[of n rf conv "Xini ac1" ac1] f by simp
  then have k2: "owe_coef ac2 = owe_coef ac1" "eff_ratio ac2 = eff_ratio ac1"
    using frame_fields[of ac2 ac1] by simp_all
  show ?thesis
  proof (cases res)
    case (Inl err)
    then show ?thesis using assms f k2 by (simp add: design_aircraft_def)
  next
    case (Inr xi)
    obtain X ier where xi: "xi = (X, ier)" by (cases xi)
    show ?thesis
    proof (cases "ier = 1")
      case False
      then show ?thesis using assms f k2 Inr xi by (simp add: design_aircraft_def)
    next
      case True
      obtain r3 ac3 where e: "eval_design conv (fst X, snd X) ac2 = (r3, ac3)"
        by (cases "eval_design conv (fst X, snd X) ac2")
      have "frame ac3 = frame ac2" using eval_design_frame[of conv "(fst X, snd X)" ac2] e by simp
      then have k3: "owe_coef ac3 = owe_coef ac1" "eff_ratio ac3 = eff_ratio ac1"
        using frame_fields[of ac3 ac2] k2 by simp_all
      show ?thesis
      proof (cases r3)
        case (Inl err)
        then show ?thesis using assms f Inr xi True e k3 by (simp add: design_aircraft_def)
      next
        case (Inr r)
        obtain r4 ac4 where d: "design_envelope conv ac3 = (r4, ac4)"
          by (cases "design_envelope conv ac3")
        from design_envelope_fields[OF d] k3
        have "owe_coef ac4 = owe_coef ac1" "eff_ratio ac4 = eff_ratio ac1" by simp_all
        then show ?thesis using assms f \<open>res = Inr xi\<close> xi True e Inr d
          by (simp add: design_aircraft_def)
      qed
    qed
  qed
qed

lemma operation_fct_state: "snd (operation_fct conv n_pax rng x ac) = ac"
  by (simp add: operation_fct_def Let_def mission_def split: sum.splits prod.splits)

lemma operation_state: "snd (operation conv rf n n_pax rng ac) = ac"
proof -
  have "snd (fsolve n rf (operation_fct conv n_pax rng) (Xini ac) ac) = ac"
    using fsolve_key[of "\<lambda>s. s" "operation_fct conv n_pax rng" n rf "Xini ac" ac]
    by (simp add: operation_fct_state)
  then show ?thesis
    by (auto simp: operation_def Let_def split: sum.splits prod.splits)
qed

subsection \<open>The claim\<close>

text \<open>
  C10, as stated: a value given through \<open>effr\<close> is used by every subsequent
  solve. After \<open>mission(77000, 15500, effr=40)\<close> on the example aircraft the
  efficiency ratio is 1440000; a following \<open>design_aircraft()\<close> solves with
  1300000, the ratio it recomputes from \<open>l_o_d(npax)/sfc\<close> before it calls the
  root-finder.
\<close>

theorem design_resets_eff_ratio_counterexample:
  "eff_ratio (snd (mission kg_daN_h (Fin 77000) (Fin 15500) (Some (Fin 40)) example_aircraft))
     = Fin 1440000
   \<and> eff_ratio (snd (design_aircraft kg_daN_h (try_points (small2 1) []) 100
        None None None None
        (snd (mission kg_daN_h (Fin 77000) (Fin 15500) (Some (Fin 40)) example_aircraft))))
     = Fin 1300000"
proof -
  let ?ac1 = "snd (mission kg_daN_h (Fin 77000) (Fin 15500) (Some (Fin 40)) example_aircraft)"
  have a: "?ac1 = example_aircraft\<lparr>eff_ratio := Fin 1440000\<rparr>"
    by (simp add: mission_def kg_daN_h_def py_div_def bind_exc_def)
  have "design_setup kg_daN_h None None None None ?ac1 = (Inr (), ?ac1\<lparr>eff_ratio := Fin 1300000\<rparr>)"
    unfolding a
    by (simp add: design_setup_def example_aircraft_def l_o_d_def Let_def py_div_def py_max_def py_min_def)
  from design_aircraft_after_setup[OF this, of "try_points (small2 1) []" 100]
  show ?thesis using a by simp
qed

text \<open>
  C10, amended: \<open>structure\<close> and \<open>mission\<close> leave the aircraft unchanged when
  the optional argument is omitted; given \<open>coef\<close>, \<open>structure\<close> stores it in
  \<open>owe_coef\<close>, and given \<open>effr\<close> (with a conversion factor that is not zero),
  \<open>mission\<close> stores \<open>effr\<close> divided by that factor in \<open>eff_ratio\<close>; a later
  call without the argument computes with the stored value. \<open>operation\<close> writes no
  attribute, and a later \<open>design_aircraft\<close> without \<open>coef\<close> keeps
  \<open>owe_coef\<close>; but a \<open>design_aircraft\<close> without \<open>effr\<close> replaces
  \<open>eff_ratio\<close> by \<open>l_o_d(npax)/sfc\<close>.
\<close>

theorem optional_arguments_persist:
  "snd (structure_ac m None ac) = ac
   \<and> snd (mission conv tow fuel None ac) = ac
   \<and> snd (structure_ac m (Some c) ac) = ac\<lparr>owe_coef := c\<rparr>
   \<and> structure_ac m2 None (ac\<lparr>owe_coef := c\<rparr>) = structure_ac m2 (Some c) ac
   \<and> (conv \<noteq> Fin 0 \<longrightarrow>
        snd (mission conv tow fuel (Some e) ac) = ac\<lparr>eff_ratio := np_div e conv\<rparr>
      \<and> mission conv tow2 fuel2 None (ac\<lparr>eff_ratio := np_div e conv\<rparr>)
          = mission conv tow2 fuel2 (Some e) ac)
   \<and> snd (operation conv rf2 n2 n_pax rng ac) = ac
   \<and> (sfc ac \<noteq> Fin 0 \<longrightarrow>
        owe_coef (snd (design_aircraft conv rf n None k w None ac)) = owe_coef ac
      \<and> eff_ratio (snd (design_aircraft conv rf n None k w None ac))
          = np_div (l_o_d (npax ac)) (sfc ac))"
proof -
  have s: "design_setup conv None k w None ac = (Inr (), ac1) \<Longrightarrow>
      owe_coef ac1 = owe_coef ac \<and> eff_ratio ac1 = np_div (l_o_d (npax ac)) (sfc ac)" for ac1
    by (auto simp: design_setup_def Let_def py_div_def split: option.splits if_splits)
  have "sfc ac \<noteq> Fin 0 \<Longrightarrow> \<exists>ac1. design_setup conv None k w None ac = (Inr (), ac1)"
    by (auto simp: design_setup_def Let_def py_div_def split: option.splits)
  then have d: "sfc ac \<noteq> Fin 0 \<Longrightarrow>
        owe_coef (snd (design_aircraft conv rf n None k w None ac)) = owe_coef ac
      \<and> eff_ratio (snd (design_aircraft conv rf n None k w None ac))
          = np_div (l_o_d (npax ac)) (sfc ac)"
    using design_aircraft_after_setup[of conv None k w None ac _ _ rf n] s by metis
  have m: "conv \<noteq> Fin 0 \<Longrightarrow>
        snd (mission conv tow fuel (Some e) ac) = ac\<lparr>eff_ratio := np_div e conv\<rparr>
      \<and> mission conv tow2 fuel2 None (ac\<lparr>eff_ratio := np_div e conv\<rparr>)
          = mission conv tow2 fuel2 (Some e) ac"
    by (simp add: mission_def py_div_def bind_exc_def)
  have "snd (structure_ac m (Some c) ac) = ac\<lparr>owe_coef := c\<rparr>"
    "structure_ac m2 None (ac\<lparr>owe_coef := c\<rparr>) = structure_ac m2 (Some c) ac"
    by (simp_all add: structure_ac_def)
  with d m show ?thesis
    by (simp add: structure_ac_None_state mission_None_state operation_state)
qed


theorem optional_arguments_persist_witness:
  "kg_daN_h \<noteq> Fin 0 \<and> sfc example_aircraft \<noteq> Fin 0
   \<and> snd (mission kg_daN_h (Fin 77000) (Fin 15500) (Some (Fin 40)) example_aircraft)
       = example_aircraft\<lparr>eff_ratio := Fin 1440000\<rparr>
   \<and> snd (structure_ac (Fin 77000) (Some [Fin 0, Fin 0.5, Fin 0]) example_aircraft)
       = example_aircraft\<lparr>owe_coef := [Fin 0, Fin 0.5, Fin 0]\<rparr>
   \<and> owe_coef (snd (design_aircraft kg_daN_h (try_points (small2 1) []) 100
                      None None None None example_aircraft))
       = owe_coef example_aircraft
   \<and> eff_ratio (snd (design_aircraft kg_daN_h (try_points (small2 1) []) 100
                      None None None None example_aircraft))
       = Fin 1300000"
proof -
  have c: "kg_daN_h \<noteq> Fin 0" by (simp add: kg_daN_h_def)
  have f: "sfc example_aircraft \<noteq> Fin 0" by (simp add: example_aircraft_def)
  have v: "np_div (Fin 40) kg_daN_h = Fin 1440000" by (simp add: kg_daN_h_def)
  have l: "np_div (l_o_d (npax example_aircraft)) (sfc example_aircraft) = Fin 1300000"
    by (simp add: example_aircraft_def l_o_d_def Let_def py_max_def py_min_def)
  show ?thesis
    using optional_arguments_persist[of "Fin 77000" example_aircraft kg_daN_h "Fin 77000"
        "Fin 15500" "[Fin 0, Fin 0.5, Fin 0]" "Fin 77000" "Fin 40" "Fin 77000" "Fin 15500"
        "try_points (small2 1) []" 100 "Fin 150" "Fin 5556000"
        "try_points (small2 1) []" 100 None None] c f v l
    by simp
qed

section \<open>Non-convergence\<close>

subsection \<open>Two failing runs on the example aircraft\<close>

lemma design_setup_fields:
  assumes "design_setup conv coef k w e ac = (res, ac1)"
  shows "cruise_speed ac1 = cruise_speed ac \<and> payload_max ac1 = payload_max ac
       \<and> range_pl_max ac1 = range_pl_max ac \<and> payload_fuel_max ac1 = payload_fuel_max ac
       \<and> range_fuel_max ac1 = range_fuel_max ac \<and> range_no_pl ac1 = range_no_pl ac"
  using assms
  by (auto simp: design_setup_def Let_def split: option.splits sum.splits)

text \<open>Single steps of a run, for concrete runs.\<close>

lemma fsolve_iter_finish:
  "rf x0 hist = Finish x ier \<Longrightarrow> fsolve_iter n rf func x0 hist s = (Inr (x, ier), s)"
  by (cases n) simp_all

lemma fsolve_iter_evaluate:
  "rf x0 hist = Evaluate x \<Longrightarrow> func x s = (Inr r, s') \<Longrightarrow> 0 < n \<Longrightarrow>
     fsolve_iter n rf func x0 hist s = fsolve_iter (n - 1) rf func x0 (hist @ [(x, r)]) s'"
  by (cases n) simp_all

lemma eval_design_example_x0:
  "\<exists>r2. eval_design kg_daN_h (Fin 78000, Fin 19500) example_aircraft =
     (Inr (Fin (- 4495.9848), r2),
      example_aircraft\<lparr>mtow := Fin 78000, fuel_mission := Fin 19500, fuel_reserve := Fin 975,
        ldw := Fin 58500, payload := Fin 19500, owe := Fin 38025\<rparr>)"
  by (simp add: eval_design_def structure_ac_def mission_def example_aircraft_def
        atmosphere_eval atm_gam_def atm_r_def atm_g_def)


lemma eval_design_example_second:
  "\<exists>r2. eval_design kg_daN_h (Fin 70000, Fin 20000)
       (example_aircraft\<lparr>mtow := Fin 78000, fuel_mission := Fin 19500, fuel_reserve := Fin 975,
        ldw := Fin 58500, payload := Fin 19500, owe := Fin 38025\<rparr>) =
     (Inr (Fin (- 8828.78), r2),
      example_aircraft\<lparr>mtow := Fin 70000, fuel_mission := Fin 20000, fuel_reserve := Fin 1000,
        ldw := Fin 50000, payload := Fin 19500, owe := Fin 29500\<rparr>)"
  by (simp add: eval_design_def structure_ac_def mission_def example_aircraft_def
        atmosphere_eval atm_gam_def atm_r_def atm_g_def)

lemma design_setup_example:
  "design_setup kg_daN_h None None None None example_aircraft = (Inr (), example_aircraft)"
  by (simp add: design_setup_def example_aircraft_def l_o_d_def Let_def py_div_def
        py_max_def py_min_def)

lemma Xini_example: "Xini example_aircraft = (Fin 78000, Fin 19500)"
  by (simp add: Xini_def example_aircraft_def)

lemma failing_run_example:
  "design_aircraft kg_daN_h (try_points (small2 1) []) 100 None None None None example_aircraft =
     (Inl (Exception ''Convergence problem''),
      example_aircraft\<lparr>mtow := Fin 78000, fuel_mission := Fin 19500, fuel_reserve := Fin 975,
        ldw := Fin 58500, payload := Fin 19500, owe := Fin 38025\<rparr>)"
proof -
  obtain r2 where e: "eval_design kg_daN_h (Fin 78000, Fin 19500) example_aircraft =
     (Inr (Fin (- 4495.9848), r2),
      example_aircraft\<lparr>mtow := Fin 78000, fuel_mission := Fin 19500, fuel_reserve := Fin 975,
        ldw := Fin 58500, payload := Fin 19500, owe := Fin 38025\<rparr>)"
    using eval_design_example_x0 by blast
  have n: "\<not> small2 1 (Fin (- 4495.9848), r2)" by (simp add: small2_def small_def)
  have "fsolve 100 (try_points (small2 1) []) (eval_design kg_daN_h)
          (Fin 78000, Fin 19500) example_aircraft =
        (Inr ((Fin 78000, Fin 19500), 5),
         example_aircraft\<lparr>mtow := Fin 78000, fuel_mission := Fin 19500, fuel_reserve := Fin 975,
        ldw := Fin 58500, payload := Fin 19500, owe := Fin 38025\<rparr>)"
    using n by (simp add: fsolve_def e fsolve_iter_finish try_points_def)
  then show ?thesis by (simp add: design_aircraft_def design_setup_example Xini_example)
qed

lemma failing_run_example_two_points:
  "design_aircraft kg_daN_h (try_points (small2 1) [(Fin 70000, Fin 20000)]) 100
       None None None None example_aircraft =
     (Inl (Exception ''Convergence problem''),
      example_aircraft\<lparr>mtow := Fin 70000, fuel_mission := Fin 20000, fuel_reserve := Fin 1000,
        ldw := Fin 50000, payload := Fin 19500, owe := Fin 29500\<rparr>)"
proof -
  obtain r2 where e: "eval_design kg_daN_h (Fin 78000, Fin 19500) example_aircraft =
     (Inr (Fin (- 4495.9848), r2),
      example_aircraft\<lparr>mtow := Fin 78000, fuel_mission := Fin 19500, fuel_reserve := Fin 975,
        ldw := Fin 58500, payload := Fin 19500, owe := Fin 38025\<rparr>)"
    using eval_design_example_x0 by blast
  obtain r2' where e': "eval_design kg_daN_h (Fin 70000, Fin 20000)
       (example_aircraft\<lparr>mtow := Fin 78000, fuel_mission := Fin 19500, fuel_reserve := Fin 975,
        ldw := Fin 58500, payload := Fin 19500, owe := Fin 38025\<rparr>) =
     (Inr (Fin (- 8828.78), r2'),
      example_aircraft\<lparr>mtow := Fin 70000, fuel_mission := Fin 20000, fuel_reserve := Fin 1000,
        ldw := Fin 50000, payload := Fin 19500, owe := Fin 29500\<rparr>)"
    using eval_design_example_second by blast
  have n: "\<not> small2 1 (Fin (- 4495.9848), r2)" "\<not> small2 1 (Fin (- 8828.78), r2')"
    by (simp_all add: small2_def small_def)
  have "fsolve 100 (try_points (small2 1) [(Fin 70000, Fin 20000)]) (eval_design kg_daN_h)
          (Fin 78000, Fin 19500) example_aircraft =
        (Inr ((Fin 70000, Fin 20000), 5),
         example_aircraft\<lparr>mtow := Fin 70000, fuel_mission := Fin 20000, fuel_reserve := Fin 1000,
        ldw := Fin 50000, payload := Fin 19500, owe := Fin 29500\<rparr>)"
  proof -
    let ?rf = "try_points (small2 1) [(Fin 70000, Fin 20000)]"
    let ?h1 = "[((Fin 78000, Fin 19500), (Fin (- 4495.9848), r2))]"
    have 1: "?rf (Fin 78000, Fin 19500) ?h1 = Evaluate (Fin 70000, Fin 20000)"
      using n by (simp add: try_points_def)
    have 2: "?rf (Fin 78000, Fin 19500) (?h1 @ [((Fin 70000, Fin 20000), (Fin (- 8828.78), r2'))])
               = Finish (Fin 70000, Fin 20000) 5"
      using n by (simp add: try_points_def)
    have 3: "(0::nat) < 100" by simp
    show ?thesis
      unfolding fsolve_def e
      by (simp only: prod.case sum.case
            fsolve_iter_evaluate[where rf="?rf" and func="eval_design kg_daN_h", OF 1 e' 3]
            fsolve_iter_finish[where rf="?rf", OF 2])
  qed
  then show ?thesis by (simp add: design_aircraft_def design_setup_example Xini_example)
qed

subsection \<open>The exception of a failed solve\<close>

text \<open>
  C2, as stated: the exception of a failed solve carries the last iterate and the
  magnitude of the residual. Two runs on the example aircraft that end at different
  points, (78000, 19500) and (70000, 20000), with different residuals, raise the same
  value: the generic \<open>Exception\<close> with the message "Convergence problem". Only the
  attributes of the aircraft tell the runs apart.
\<close>

theorem convergence_exception_without_iterate_counterexample:
  "fst (design_aircraft kg_daN_h (try_points (small2 1) []) 100
          None None None None example_aircraft)
     = Inl (Exception ''Convergence problem'')
   \<and> fst (design_aircraft kg_daN_h (try_points (small2 1) [(Fin 70000, Fin 20000)]) 100
          None None None None example_aircraft)
     = Inl (Exception ''Convergence problem'')
   \<and> mtow (snd (design_aircraft kg_daN_h (try_points (small2 1) []) 100
          None None None None example_aircraft)) = Fin 78000
   \<and> mtow (snd (design_aircraft kg_daN_h (try_points (small2 1) [(Fin 70000, Fin 20000)]) 100
          None None None None example_aircraft)) = Fin 70000"
  by (simp add: failing_run_example failing_run_example_two_points)

text \<open>
  C2, amended: in each of the four solves of the core (\<open>design_aircraft\<close>,
  \<open>operation\<close>, \<open>unitary_thrust\<close>, \<open>unitary_sc\<close>), whenever the run of the
  root-finder returns with a flag other than 1, the call raises the generic
  \<open>Exception\<close> with the message "Convergence problem", which holds neither the
  iterate nor the residual, and returns no result.
\<close>

theorem nonconvergence_raises:
  "(design_setup conv coef k w e ac = (Inr (), ac1)
      \<and> fsolve n rf (eval_design conv) (Xini ac1) ac1 = (Inr (X, ier), ac2) \<and> ier \<noteq> 1
    \<longrightarrow> design_aircraft conv rf n coef k w e ac
          = (Inl (Exception ''Convergence problem''), ac2))
   \<and> (fsolve n' rf' (operation_fct conv' n_pax rng) (Xini oc) oc = (Inr (X', ier'), oc2)
        \<and> ier' \<noteq> 1
    \<longrightarrow> operation conv' rf' n' n_pax rng oc = (Inl (Exception ''Convergence problem''), oc2))
   \<and> (thrust_setup ea nac pamb tamb mach rating throttle pw_offtake
          = Inr (PwShaft, Ttot, Vair, q0init)
        \<and> fsolve nt rft (\<lambda>q u. (thrust_fct ea nac q PwShaft pamb Ttot Vair, u)) q0init ()
          = (Inr (q, iert), ())
        \<and> iert \<noteq> 1
    \<longrightarrow> unitary_thrust ea rft nt nac pamb tamb mach rating throttle pw_offtake
          = Inl (Exception ''Convergence problem''))
   \<and> (sc_setup ea' nac' pamb' tamb' mach' rating' pw_offtake'
          = Inr (Ttot', Vair', q0init', PWinit)
        \<and> fsolve ns rfs (\<lambda>x u. (sc_fct ea' nac' x thrust pamb' Ttot' Vair', u))
             (q0init', PWinit) ()
          = (Inr (xs, iers), ())
        \<and> iers \<noteq> 1
    \<longrightarrow> unitary_sc ea' rfs ns nac' pamb' tamb' mach' rating' thrust pw_offtake'
          = Inl (Exception ''Convergence problem''))"
  by (simp add: design_aircraft_def operation_def unitary_thrust_def unitary_sc_def bind_exc_def)


lemma operation_fct_example_x0:
  "\<exists>r2. operation_fct kg_daN_h (Fin 100) (Fin 3000000) (Fin 78000, Fin 19500) example_aircraft =
     (Inr (Fin (- 3300), r2), example_aircraft)"
  by (simp add: operation_fct_def mission_def example_aircraft_def
        atmosphere_eval atm_gam_def atm_r_def atm_g_def)

lemma thrust_fct_isa_returns:
  "\<exists>y. thrust_fct isa_earth example_nacelle q PwShaft pamb Ttot Vair = Inr y"
  by (simp add: thrust_fct_def corrected_air_flow_def isa_earth_def example_nacelle_def
        py_div_def bind_exc_def Let_def)

lemma sc_fct_isa_returns:
  "\<exists>y. sc_fct isa_earth example_nacelle x thrust pamb Ttot Vair = Inr y"
  by (simp add: sc_fct_def corrected_air_flow_def isa_earth_def example_nacelle_def
        py_div_def bind_exc_def Let_def)

lemma thrust_setup_isa_returns:
  "\<exists>v. thrust_setup isa_earth example_nacelle pamb tamb mach ''MTO'' throttle pw_offtake = Inr v"
  by (simp add: thrust_setup_def corrected_air_flow_def isa_earth_def example_nacelle_def
        py_div_def bind_exc_def Let_def dict_get_def)

lemma sc_setup_isa_returns:
  "\<exists>v. sc_setup isa_earth example_nacelle pamb tamb mach ''MCR'' pw_offtake = Inr v"
  by (simp add: sc_setup_def corrected_air_flow_def isa_earth_def example_nacelle_def
        py_div_def bind_exc_def Let_def dict_get_def)

theorem nonconvergence_raises_witness:
  "fst (design_aircraft kg_daN_h (try_points (small2 1) []) 100 None None None None
          example_aircraft) = Inl (Exception ''Convergence problem'')
   \<and> fst (operation kg_daN_h (try_points (small2 1) []) 100 (Fin 100) (Fin 3000000)
          example_aircraft) = Inl (Exception ''Convergence problem'')
   \<and> unitary_thrust isa_earth (try_points (\<lambda>r. False) []) 100 example_nacelle
        (Fin 101325) (Fin 288.15) (Fin 0.25) ''MTO'' (Fin 1) (Fin 0)
       = Inl (Exception ''Convergence problem'')
   \<and> unitary_sc isa_earth (try_points (\<lambda>r. False) []) 100 example_nacelle
        (Fin 22632) (Fin 216.65) (Fin 0.78) ''MCR'' (Fin 20000) (Fin 0)
       = Inl (Exception ''Convergence problem'')"
proof -
  obtain r2 where e: "eval_design kg_daN_h (Fin 78000, Fin 19500) example_aircraft =
     (Inr (Fin (- 4495.9848), r2),
      example_aircraft\<lparr>mtow := Fin 78000, fuel_mission := Fin 19500, fuel_reserve := Fin 975,
        ldw := Fin 58500, payload := Fin 19500, owe := Fin 38025\<rparr>)"
    using eval_design_example_x0 by blast
  have n1: "\<not> small2 1 (Fin (- 4495.9848), r2)" by (simp add: small2_def small_def)
  have f1: "fsolve 100 (try_points (small2 1) []) (eval_design kg_daN_h)
          (Xini example_aircraft) example_aircraft =
        (Inr ((Fin 78000, Fin 19500), 5),
         example_aircraft\<lparr>mtow := Fin 78000, fuel_mission := Fin 19500, fuel_reserve := Fin 975,
        ldw := Fin 58500, payload := Fin 19500, owe := Fin 38025\<rparr>)"
    using n1 by (simp add: Xini_example fsolve_def e fsolve_iter_finish try_points_def)
  obtain r2' where o: "operation_fct kg_daN_h (Fin 100) (Fin 3000000) (Fin 78000, Fin 19500)
       example_aircraft = (Inr (Fin (- 3300), r2'), example_aircraft)"
    using operation_fct_example_x0 by blast
  have n2: "\<not> small2 1 (Fin (- 3300), r2')" by (simp add: small2_def small_def)
  have f2: "fsolve 100 (try_points (small2 1) []) (operation_fct kg_daN_h (Fin 100) (Fin 3000000))
          (Xini example_aircraft) example_aircraft =
        (Inr ((Fin 78000, Fin 19500), 5), example_aircraft)"
    using n2 by (simp add: Xini_example fsolve_def o fsolve_iter_finish try_points_def)
  obtain PwShaft Ttot Vair q0init where t: "thrust_setup isa_earth example_nacelle
        (Fin 101325) (Fin 288.15) (Fin 0.25) ''MTO'' (Fin 1) (Fin 0)
       = Inr (PwShaft, Ttot, Vair, q0init)"
    using thrust_setup_isa_returns[of "Fin 101325" "Fin 288.15" "Fin 0.25" "Fin 1" "Fin 0"]
    by (metis prod.exhaust)
  obtain y where ty: "thrust_fct isa_earth example_nacelle q0init PwShaft (Fin 101325) Ttot Vair
       = Inr y"
    using thrust_fct_isa_returns by blast
  have f3: "fsolve 100 (try_points (\<lambda>r. False) [])
          (\<lambda>q u. (thrust_fct isa_earth example_nacelle q PwShaft (Fin 101325) Ttot Vair, u))
          q0init () = (Inr (q0init, 5), ())"
    by (simp add: fsolve_def ty fsolve_iter_finish try_points_def)
  obtain Ttot' Vair' q0init' PWinit where c: "sc_setup isa_earth example_nacelle
        (Fin 22632) (Fin 216.65) (Fin 0.78) ''MCR'' (Fin 0)
       = Inr (Ttot', Vair', q0init', PWinit)"
    using sc_setup_isa_returns[of "Fin 22632" "Fin 216.65" "Fin 0.78" "Fin 0"]
    by (metis prod.exhaust)
  obtain y' where cy: "sc_fct isa_earth example_nacelle (q0init', PWinit) (Fin 20000)
        (Fin 22632) Ttot' Vair' = Inr y'"
    using sc_fct_isa_returns by blast
  have f4: "fsolve 100 (try_points (\<lambda>r. False) [])
          (\<lambda>x u. (sc_fct isa_earth example_nacelle x (Fin 20000) (Fin 22632) Ttot' Vair', u))
          (q0init', PWinit) () = (Inr ((q0init', PWinit), 5), ())"
    by (simp add: fsolve_def cy fsolve_iter_finish try_points_def)
  have five: "(5::int) \<noteq> 1" by simp
  show ?thesis
    using nonconvergence_raises[where conv=kg_daN_h and coef=None and k=None and w=None
        and e=None and ac=example_aircraft and ?ac1.0=example_aircraft and n=100
        and rf="try_points (small2 1) []" and X="(Fin 78000, Fin 19500)" and ier=5
        and ?ac2.0="example_aircraft\<lparr>mtow := Fin 78000, fuel_mission := Fin 19500,
           fuel_reserve := Fin 975, ldw := Fin 58500, payload := Fin 19500, owe := Fin 38025\<rparr>"
        and n'=100 and rf'="try_points (small2 1) []" and conv'=kg_daN_h and n_pax="Fin 100"
        and rng="Fin 3000000" and oc=example_aircraft and X'="(Fin 78000, Fin 19500)"
        and ier'=5 and ?oc2.0=example_aircraft
        and ea=isa_earth and nac=example_nacelle and pamb="Fin 101325" and tamb="Fin 288.15"
        and mach="Fin 0.25" and rating="''MTO''" and throttle="Fin 1" and pw_offtake="Fin 0"
        and PwShaft=PwShaft and Ttot=Ttot and Vair=Vair and ?q0init.0=q0init and nt=100
        and rft="try_points (\<lambda>r. False) []" and q=q0init and iert=5
        and ea'=isa_earth and nac'=example_nacelle and pamb'="Fin 22632" and tamb'="Fin 216.65"
        and mach'="Fin 0.78" and rating'="''MCR''" and pw_offtake'="Fin 0"
        and Ttot'=Ttot' and Vair'=Vair' and q0init'=q0init' and PWinit=PWinit and ns=100
        and rfs="try_points (\<lambda>r. False) []" and thrust="Fin 20000"
        and xs="(q0init', PWinit)" and iers=5]
      design_setup_example f1 f2 t f3 c f4 five
    by simp
qed


subsection \<open>The aircraft after a failed design\<close>

text \<open>
  C8, as stated: if \<open>design_aircraft\<close> raises on non-convergence the mass
  attributes hold the values from before the call. On the example aircraft a failing
  run leaves \<open>mtow\<close> at 78000 (77000 before) and \<open>owe\<close> at 38025 (41225 before):
  \<open>eval_design\<close> writes the attributes at every evaluation.
\<close>

theorem failed_design_overwrites_masses_counterexample:
  "fst (design_aircraft kg_daN_h (try_points (small2 1) []) 100 None None None None
          example_aircraft) = Inl (Exception ''Convergence problem'')
   \<and> mtow example_aircraft = Fin 77000
   \<and> mtow (snd (design_aircraft kg_daN_h (try_points (small2 1) []) 100 None None None None
          example_aircraft)) = Fin 78000
   \<and> owe example_aircraft = Fin 41225
   \<and> owe (snd (design_aircraft kg_daN_h (try_points (small2 1) []) 100 None None None None
          example_aircraft)) = Fin 38025"
  by (simp add: failing_run_example) (simp add: example_aircraft_def)

lemma fsolve_iter_error:
  assumes "fsolve_iter n rf func x0 hist s = (Inl err, s')"
  shows "\<exists>y s0. func y s0 = (Inl err, s')"
  using assms
proof (induction n arbitrary: hist s)
  case 0
  then show ?case by (auto split: action.splits)
next
  case (Suc n)
  show ?case
  proof (cases "rf x0 hist")
    case (Finish y ier)
    with Suc.prems show ?thesis by simp
  next
    case (Evaluate y)
    show ?thesis
    proof (cases "func y s")
      case (Pair res1 s1)
      show ?thesis
      proof (cases res1)
        case (Inl e1)
        with Evaluate Pair Suc.prems show ?thesis by auto
      next
        case (Inr r)
        with Evaluate Pair Suc.prems Suc.IH[of "hist @ [(y, r)]" s1] show ?thesis by simp
      qed
    qed
  qed
qed

lemma fsolve_error:
  assumes "fsolve n rf func x0 s = (Inl err, s')"
  shows "\<exists>y s0. func y s0 = (Inl err, s')"
proof (cases "func x0 s")
  case (Pair res1 s1)
  show ?thesis
  proof (cases res1)
    case (Inl e1)
    with Pair assms show ?thesis by (auto simp: fsolve_def)
  next
    case (Inr r)
    with Pair assms fsolve_iter_error[of n rf func x0 "[(x0, r)]" s1 err s'] show ?thesis
      by (simp add: fsolve_def)
  qed
qed

text \<open>The exceptions of \<open>atmosphere\<close> at standard temperature, for any altitude.\<close>

lemma atmosphere_errors:
  assumes "atmosphere altp (Fin 0) = Inl err"
  shows "err = IndexError \<or> err = Exception ''atmosphere, altitude cannot exceed 50km''"
proof (cases altp)
  case (Fin h)
  consider "h < 50000" | "h = 50000" | "50000 < h" by linarith
  then show ?thesis
  proof cases
    case 1
    from atmosphere_vsnd[OF 1] Fin assms show ?thesis by auto
  next
    case 2
    with Fin assms show ?thesis by (simp add: atmosphere_eval)
  next
    case 3
    from atmosphere_above_ceiling[OF 3, of "Fin 0"] Fin assms show ?thesis by simp
  qed
next
  case PInf
  with assms show ?thesis by (simp add: atmosphere_def bind_exc_def np_get_def atm_Z_def)
next
  case NInf
  with assms show ?thesis by (simp add: atmosphere_eval)
next
  case NaN
  with assms show ?thesis by (simp add: atmosphere_eval)
qed

lemma eval_design_errors:
  assumes "eval_design conv X s = (Inl err, s')"
  shows "err = IndexError \<or> err = Exception ''atmosphere, altitude cannot exceed 50km''"
  using assms atmosphere_errors
  by (auto simp: eval_design_def Let_def structure_ac_def mission_def bind_exc_def np_get_def
           split: sum.splits prod.splits if_splits)

lemma design_envelope_errors:
  assumes "design_envelope conv s = (Inl err, s')"
  shows "err = IndexError \<or> err = Exception ''atmosphere, altitude cannot exceed 50km''"
  using assms atmosphere_errors[of "cruise_altp s" err]
  by (auto simp: design_envelope_def Let_def mission_def bind_exc_def
           split: sum.splits prod.splits if_splits)

text \<open>
  C8, amended: if \<open>design_aircraft\<close> raises on non-convergence, the aircraft is
  as the last residual evaluation of the run left it: it is the result of a call of
  \<open>eval_design\<close> that returned, so \<open>mtow\<close> and \<open>fuel_mission\<close> hold an
  evaluated point and \<open>fuel_reserve\<close>, \<open>ldw\<close>, \<open>payload\<close> and \<open>owe\<close> the
  values derived from it. Only the cruise speed and the corners of the envelope, which
  are written after a successful solve, hold the values from before the call.
\<close>

theorem failed_design_keeps_last_evaluation:
  assumes "design_aircraft conv rf n coef k w e ac
             = (Inl (Exception ''Convergence problem''), ac')"
  shows "(\<exists>X s r. eval_design conv X s = (Inr r, ac'))
       \<and> fuel_reserve ac' = fmul (kr ac') (fuel_mission ac')
       \<and> ldw ac' = fsub (mtow ac') (fuel_mission ac')
       \<and> payload ac' = fmul (npax ac') (mpax ac')
       \<and> owe ac' = fsub (fsub (fsub (mtow ac') (payload ac')) (fuel_mission ac'))
                         (fuel_reserve ac')
       \<and> cruise_speed ac' = cruise_speed ac \<and> payload_max ac' = payload_max ac
       \<and> range_pl_max ac' = range_pl_max ac \<and> payload_fuel_max ac' = payload_fuel_max ac
       \<and> range_fuel_max ac' = range_fuel_max ac \<and> range_no_pl ac' = range_no_pl ac"
proof -
  let ?cp = "Exception ''Convergence problem''"
  have ne: "?cp \<noteq> IndexError" "?cp \<noteq> ZeroDivisionError"
    "?cp \<noteq> Exception ''atmosphere, altitude cannot exceed 50km''"
    by simp_all
  obtain r1 ac1 where s: "design_setup conv coef k w e ac = (r1, ac1)"
    by (cases "design_setup conv coef k w e ac")
  have r1: "r1 = Inr ()"
  proof (cases r1)
    case (Inl err)
    then have "err = ZeroDivisionError" using s
      by (auto simp: design_setup_def Let_def py_div_def split: option.splits sum.splits if_splits)
    with Inl s assms show ?thesis by (simp add: design_aircraft_def)
  next
    case (Inr u)
    then show ?thesis by simp
  qed
  obtain r2 ac2 where f: "fsolve n rf (eval_design conv) (Xini ac1) ac1 = (r2, ac2)"
    by (cases "fsolve n rf (eval_design conv) (Xini ac1) ac1")
  show ?thesis
  proof (cases r2)
    case (Inl err)
    from fsolve_error[OF f[unfolded Inl]] eval_design_errors
    have "err = IndexError \<or> err = Exception ''atmosphere, altitude cannot exceed 50km''"
      by blast
    moreover have "err = ?cp" using assms s r1 f Inl by (simp add: design_aircraft_def)
    ultimately show ?thesis using ne by simp
  next
    case (Inr xi)
    obtain X ier where xi: "xi = (X, ier)" by (cases xi)
    from fsolve_last_eval[OF f[unfolded Inr]]
    obtain Y s0 r where ev: "eval_design conv Y s0 = (Inr r, ac2)" by blast
    have fr: "frame ac2 = frame ac1"
      using fsolve_eval_design_frame[of n rf conv "Xini ac1" ac1] f by simp
    have ier: "ier \<noteq> 1"
    proof
      assume one: "ier = 1"
      obtain r3 ac3 where e3: "eval_design conv (fst X, snd X) ac2 = (r3, ac3)"
        by (cases "eval_design conv (fst X, snd X) ac2")
      show False
      proof (cases r3)
        case (Inl err)
        have "err = ?cp" using assms s r1 f Inr xi one e3 Inl by (simp add: design_aircraft_def)
        with eval_design_errors[OF e3[unfolded Inl]] ne show False by simp
      next
        case (Inr rr)
        obtain r4 ac4 where e4: "design_envelope conv ac3 = (r4, ac4)"
          by (cases "design_envelope conv ac3")
        have "r4 = Inl ?cp" using assms s r1 f \<open>r2 = Inr xi\<close> xi one e3 Inr e4
          by (simp add: design_aircraft_def)
        with design_envelope_errors[of conv ac3 ?cp ac4] e4 ne show False by simp
      qed
    qed
    then have eq: "ac' = ac2" using assms s r1 f Inr xi by (simp add: design_aircraft_def)
    from eval_design_Inr(1)[OF ev]
    have fields: "fuel_reserve ac2 = fmul (kr ac2) (fuel_mission ac2)"
      "ldw ac2 = fsub (mtow ac2) (fuel_mission ac2)"
      "payload ac2 = fmul (npax ac2) (mpax ac2)"
      "owe ac2 = fsub (fsub (fsub (mtow ac2) (payload ac2)) (fuel_mission ac2))
                         (fuel_reserve ac2)"
      by simp_all
    from frame_fields[OF fr] design_setup_fields[OF s]
    have corners: "cruise_speed ac2 = cruise_speed ac" "payload_max ac2 = payload_max ac"
      "range_pl_max ac2 = range_pl_max ac" "payload_fuel_max ac2 = payload_fuel_max ac"
      "range_fuel_max ac2 = range_fuel_max ac" "range_no_pl ac2 = range_no_pl ac"
      by simp_all
    from ev fields corners show ?thesis unfolding eq by blast
  qed
qed

theorem failed_design_keeps_last_evaluation_witness:
  "design_aircraft kg_daN_h (try_points (small2 1) [(Fin 70000, Fin 20000)]) 100
       None None None None example_aircraft
     = (Inl (Exception ''Convergence problem''),
        example_aircraft\<lparr>mtow := Fin 70000, fuel_mission := Fin 20000,
          fuel_reserve := Fin 1000, ldw := Fin 50000, payload := Fin 19500, owe := Fin 29500\<rparr>)
   \<and> (\<exists>X s r. eval_design kg_daN_h X s =
        (Inr r, example_aircraft\<lparr>mtow := Fin 70000, fuel_mission := Fin 20000,
          fuel_reserve := Fin 1000, ldw := Fin 50000, payload := Fin 19500, owe := Fin 29500\<rparr>))"
  using failed_design_keeps_last_evaluation[OF failing_run_example_two_points]
    failing_run_example_two_points
  by blast

section \<open>A converged design\<close>

lemma structure_ac_reads:
  "owe_coef a = owe_coef b \<Longrightarrow> fst (structure_ac m None a) = fst (structure_ac m None b)"
  by (simp add: structure_ac_def)

lemma mission_reads:
  "cruise_altp a = cruise_altp b \<Longrightarrow> cruise_mach a = cruise_mach b \<Longrightarrow>
   eff_ratio a = eff_ratio b \<Longrightarrow>
   fst (mission conv tow fuel None a) = fst (mission conv tow fuel None b)"
  by (simp add: mission_def)

lemma eval_design_reads:
  assumes "owe_coef a = owe_coef b" "cruise_altp a = cruise_altp b"
    "cruise_mach a = cruise_mach b" "eff_ratio a = eff_ratio b" "kr a = kr b"
    "npax a = npax b" "mpax a = mpax b" "range_ac a = range_ac b"
  shows "fst (eval_design conv X a) = fst (eval_design conv X b)"
  using assms
  by (simp add: eval_design_def Let_def structure_ac_def mission_def bind_exc_def
           split: sum.splits prod.splits)

text \<open>The steps of a call of \<open>design_aircraft\<close> that returned.\<close>

lemma design_aircraft_returned:
  assumes "design_aircraft conv rf n coef k w e ac = (Inr u, ac')"
  obtains ac1 X ac2 r ac3 where
    "design_setup conv coef k w e ac = (Inr (), ac1)"
    "fsolve n rf (eval_design conv) (Xini ac1) ac1 = (Inr (X, 1), ac2)"
    "eval_design conv X ac2 = (Inr r, ac3)"
    "design_envelope conv ac3 = (Inr (), ac')"
proof -
  obtain r1 ac1 where s: "design_setup conv coef k w e ac = (r1, ac1)"
    by (cases "design_setup conv coef k w e ac")
  obtain r2 ac2 where f: "fsolve n rf (eval_design conv) (Xini ac1) ac1 = (r2, ac2)"
    by (cases "fsolve n rf (eval_design conv) (Xini ac1) ac1")
  from assms s have r1: "r1 = Inr ()"
    by (cases r1) (simp_all add: design_aircraft_def)
  from assms s r1 f obtain X ier where r2: "r2 = Inr (X, ier)"
    by (cases r2) (auto simp: design_aircraft_def)
  from assms s r1 f r2 have ier: "ier = 1"
    by (auto simp: design_aircraft_def split: if_splits)
  obtain r3 ac3 where e3: "eval_design conv X ac2 = (r3, ac3)"
    by (cases "eval_design conv X ac2")
  from assms s r1 f r2 ier e3 obtain r where r3: "r3 = Inr r"
    by (cases r3) (auto simp: design_aircraft_def)
  from assms s r1 f r2 ier e3 r3 have "design_envelope conv ac3 = (Inr (), ac')"
    by (simp add: design_aircraft_def)
  with s r1 f r2 ier e3 r3 that show thesis by blast
qed

text \<open>
  C1. Let the root-finder give the flag 1 only for a point whose residual is within
  the tolerance in both components. Whenever \<open>design_aircraft\<close> returns, the
  aircraft it leaves balances: \<open>structure(mtow)\<close> and \<open>mission(mtow, fuel_mission)\<close>
  return, the structural weight differs from
  \<open>mtow - payload - fuel_mission - fuel_reserve\<close> by at most the tolerance, the range
  of the mission from the requested range by at most the tolerance, with
  \<open>fuel_reserve = kr * fuel_mission\<close> and \<open>payload = npax * mpax\<close>; these two
  differences are the residual vector that \<open>eval_design\<close> returns at the converged
  point.
\<close>

theorem converged_design_balances:
  assumes "sound_root_finder (small2 tol) rf"
    and "design_aircraft conv rf n coef k w e ac = (Inr (), ac')"
  shows "\<exists>owe_eff range_eff.
           fst (structure_ac (mtow ac') None ac') = Inr owe_eff
         \<and> fst (mission conv (mtow ac') (fuel_mission ac') None ac') = Inr range_eff
         \<and> small tol (fsub (fsub (fsub (fsub (mtow ac') (payload ac')) (fuel_mission ac'))
                                 (fuel_reserve ac')) owe_eff)
         \<and> small tol (fsub (range_ac ac') range_eff)
         \<and> fuel_reserve ac' = fmul (kr ac') (fuel_mission ac')
         \<and> payload ac' = fmul (npax ac') (mpax ac')
         \<and> owe ac' = fsub (fsub (fsub (mtow ac') (payload ac')) (fuel_mission ac'))
                           (fuel_reserve ac')
         \<and> fst (eval_design conv (mtow ac', fuel_mission ac') ac')
             = Inr (fsub (owe ac') owe_eff, fsub (range_ac ac') range_eff)"
proof -
  from assms(2) obtain ac1 X ac2 r ac3 where
    f: "fsolve n rf (eval_design conv) (Xini ac1) ac1 = (Inr (X, 1), ac2)"
    and e: "eval_design conv X ac2 = (Inr r, ac3)"
    and d: "design_envelope conv ac3 = (Inr (), ac')"
    by (rule design_aircraft_returned)
  from fsolve_sound[where key=frame and func="eval_design conv",
      OF assms(1) eval_design_frame eval_design_depends f]
  obtain r0 where "fst (eval_design conv X ac2) = Inr r0" "small2 tol r0" by blast
  with e have sm: "small2 tol r" by simp
  from eval_design_Inr(2)[OF e] obtain owe_eff range_eff where
    st: "fst (structure_ac (fst X) None ac3) = Inr owe_eff"
    and mi: "fst (mission conv (fst X) (snd X) None ac3) = Inr range_eff"
    and r: "r = (fsub (owe ac3) owe_eff, fsub (range_ac ac3) range_eff)"
    by blast
  note k = design_envelope_fields[OF d]
  have x: "mtow ac3 = fst X" "fuel_mission ac3 = snd X"
    "fuel_reserve ac3 = fmul (kr ac3) (fuel_mission ac3)"
    "payload ac3 = fmul (npax ac3) (mpax ac3)"
    "owe ac3 = fsub (fsub (fsub (mtow ac3) (payload ac3)) (fuel_mission ac3)) (fuel_reserve ac3)"
    using eval_design_Inr(1)[OF e] by simp_all
  have st': "fst (structure_ac (mtow ac') None ac') = Inr owe_eff"
    using st structure_ac_reads[of ac' ac3 "mtow ac'"] k x by simp
  have mi': "fst (mission conv (mtow ac') (fuel_mission ac') None ac') = Inr range_eff"
    using mi mission_reads[of ac' ac3 conv "mtow ac'" "fuel_mission ac'"] k x by simp
  have "fst (eval_design conv (mtow ac', fuel_mission ac') ac') = fst (eval_design conv X ac3)"
    using eval_design_reads[of ac' ac3 conv "(mtow ac', fuel_mission ac')"] k x by simp
  also have "\<dots> = fst (eval_design conv X ac2)"
    using eval_design_depends[of ac3 ac2 conv X] eval_design_frame[of conv X ac2] e by simp
  finally have ev: "fst (eval_design conv (mtow ac', fuel_mission ac') ac')
             = Inr (fsub (owe ac') owe_eff, fsub (range_ac ac') range_eff)"
    using e r k by simp
  have "small tol (fsub (owe ac') owe_eff)" "small tol (fsub (range_ac ac') range_eff)"
    using sm r k by (simp_all add: small2_def)
  with st' mi' ev x k show ?thesis by auto
qed


section \<open>The corners of the envelope\<close>

lemma mission_value:
  assumes "atmosphere (cruise_altp s) (Fin 0) = Inr (p, t, Fin v, Fin g)" "g \<noteq> 0"
    and "cruise_mach s = Fin ma" "eff_ratio s = Fin ef"
    and "0 < tow" "fuel < tow"
  shows "mission conv (Fin tow) (Fin fuel) None s
           = (Inr (Fin (ma * v * ef / g * ln (tow / (tow - fuel)))), s)"
proof -
  have "0 < tow / (tow - fuel)" using assms by simp
  then show ?thesis using assms by (simp add: mission_def bind_exc_def)
qed

lemma design_envelope_value:
  fixes m ow pl k :: real
  defines "F1 \<equiv> (m - ow - pl * 1.2) / (1 + k)"
    and "F2 \<equiv> (m - ow - pl * 0.4) / (1 + k)"
  defines "T \<equiv> ow + F2 * (1 + k)"
  assumes atm: "atmosphere (cruise_altp s) (Fin 0) = Inr (p, t, Fin v, Fin g)" "g \<noteq> 0"
    and fld: "cruise_mach s = Fin ma" "eff_ratio s = Fin ef" "kr s = Fin k"
      "mtow s = Fin m" "owe s = Fin ow" "payload s = Fin pl"
    and ok: "1 + k \<noteq> 0" "0 < m" "F1 < m" "F2 < m" "0 < T" "F2 < T"
  shows "design_envelope conv s =
     (Inr (), s\<lparr>cruise_speed := Fin (v * ma), payload_max := Fin (pl * 1.2),
                 range_pl_max := Fin (ma * v * ef / g * ln (m / (m - F1))),
                 payload_fuel_max := Fin (pl * 0.4),
                 range_fuel_max := Fin (ma * v * ef / g * ln (m / (m - F2))),
                 range_no_pl := Fin (ma * v * ef / g * ln (T / (T - F2)))\<rparr>)"
proof -
  let ?s2 = "s\<lparr>cruise_speed := Fin (v * ma), payload_max := Fin (pl * 1.2)\<rparr>"
  have m1: "mission conv (Fin m) (Fin F1) None ?s2
           = (Inr (Fin (ma * v * ef / g * ln (m / (m - F1)))), ?s2)"
    by (rule mission_value[where p=p and t=t]) (use atm fld ok in simp_all)
  let ?s5 = "?s2\<lparr>range_pl_max := Fin (ma * v * ef / g * ln (m / (m - F1))),
                   payload_fuel_max := Fin (pl * 0.4)\<rparr>"
  have m2: "mission conv (Fin m) (Fin F2) None ?s5
           = (Inr (Fin (ma * v * ef / g * ln (m / (m - F2)))), ?s5)"
    by (rule mission_value[where p=p and t=t]) (use atm fld ok in simp_all)
  let ?s7 = "?s5\<lparr>range_fuel_max := Fin (ma * v * ef / g * ln (m / (m - F2)))\<rparr>"
  have m3: "mission conv (Fin T) (Fin F2) None ?s7
           = (Inr (Fin (ma * v * ef / g * ln (T / (T - F2)))), ?s7)"
    by (rule mission_value[where p=p and t=t]) (use atm fld ok in simp_all)
  show ?thesis
    using atm fld ok(1) m1 m2 m3
    by (simp add: design_envelope_def Let_def F1_def F2_def T_def)
qed


lemma corner_ranges_ordered:
  fixes m f k P c :: real
  defines "ow \<equiv> m - P - f - k * f"
  defines "F1 \<equiv> (m - ow - P * 1.2) / (1 + k)"
    and "F2 \<equiv> (m - ow - P * 0.4) / (1 + k)"
  defines "T \<equiv> ow + F2 * (1 + k)"
  assumes c: "0 < c" and k: "0 \<le> k" and P: "0 < P"
    and fuel: "0.2 * P < (1 + k) * f" and empty: "0 < m - P - (1 + k) * f"
  shows "0 < m \<and> F1 < m \<and> F2 < m \<and> 0 < T \<and> F2 < T
       \<and> 0 < c * ln (m / (m - F1))
       \<and> c * ln (m / (m - F1)) < c * ln (m / (m - F2))
       \<and> c * ln (m / (m - F2)) < c * ln (T / (T - F2))"
proof -
  have q: "0 < 1 + k" using k by simp
  have ow: "0 < ow" using empty by (simp add: ow_def algebra_simps)
  define u where "u = P / (1 + k)"
  have u: "0 < u" using P q by (simp add: u_def)
  have uP: "u * (1 + k) = P" using q by (simp add: u_def)
  have F1: "F1 = f - 0.2 * u"
    using q by (simp add: F1_def ow_def u_def field_simps)
  have F2: "F2 = f + 0.6 * u"
    using q by (simp add: F2_def ow_def u_def field_simps)
  have T: "T = m - 0.4 * P"
    using q by (simp add: T_def F2_def ow_def field_simps)
  have F1pos: "0 < F1"
  proof -
    have "0.2 * (u * (1 + k)) < f * (1 + k)" using fuel by (simp add: uP mult.commute)
    then have "(0.2 * u) * (1 + k) < f * (1 + k)" by (simp add: mult.assoc)
    then have "0.2 * u < f" using q by (simp only: mult_less_cancel_right_pos)
    then show ?thesis by (simp add: F1)
  qed
  have F12: "F1 < F2" using u by (simp add: F1 F2)
  have F2pos: "0 < F2" using F1pos F12 by simp
  have F2T: "F2 < T"
  proof -
    have "0 \<le> k * F2" using k F2pos by simp
    then have "0 < ow + k * F2" using ow by simp
    moreover have "T - F2 = ow + k * F2" by (simp add: T_def algebra_simps)
    ultimately show ?thesis by simp
  qed
  have Tm: "T < m" using P by (simp add: T)
  have m: "0 < m" using F2pos F2T Tm by simp
  have r1: "0 < ln (m / (m - F1))"
  proof -
    have "0 < m - F1" "m - F1 < m" using F1pos F12 F2T Tm by simp_all
    then have "1 < m / (m - F1)" by simp
    then show ?thesis by simp
  qed
  have r2: "ln (m / (m - F1)) < ln (m / (m - F2))"
  proof -
    have a: "0 < m - F2" "m - F2 < m - F1" using F12 F2T Tm by simp_all
    then have "0 < (m - F1) * (m - F2)" by simp
    with a m have "m / (m - F1) < m / (m - F2)"
      by (intro divide_strict_left_mono) simp_all
    moreover have "0 < m / (m - F1)" using a m by simp
    ultimately show ?thesis by simp
  qed
  have r3: "ln (m / (m - F2)) < ln (T / (T - F2))"
  proof -
    have a: "0 < T - F2" "0 < m - F2" using F2T Tm by simp_all
    have "T * F2 < m * F2" using Tm F2pos by simp
    then have "m * (T - F2) < T * (m - F2)" by (simp add: algebra_simps)
    with a have "m / (m - F2) < T / (T - F2)" by (simp add: field_simps)
    moreover have "0 < m / (m - F2)" using a m by simp
    ultimately show ?thesis by simp
  qed
  have "0 < T" using F2pos F2T by simp
  moreover have "F1 < m" "F2 < m" using F12 F2T Tm by simp_all
  moreover have "0 < c * ln (m / (m - F1))"
    "c * ln (m / (m - F1)) < c * ln (m / (m - F2))"
    "c * ln (m / (m - F2)) < c * ln (T / (T - F2))"
    using c r1 r2 r3 by simp_all
  ultimately show ?thesis using m F2T by simp
qed


text \<open>
  C4, amended: after a successful \<open>design_aircraft\<close> whose converged state has
  finite values with a positive payload \<open>npax * mpax\<close>, a reserve fraction
  \<open>kr \<ge> 0\<close>, a positive product of cruise Mach number and efficiency ratio, a
  positive operating empty weight \<open>mtow - payload - (1 + kr) fuel_mission\<close> and a
  mission fuel with \<open>(1 + kr) fuel_mission > 0.2 payload\<close>, the corners satisfy
  \<open>0 < range_pl_max < range_fuel_max < range_no_pl\<close> and
  \<open>payload_max = 1.2 payload \<ge> payload_fuel_max = 0.4 payload \<ge> 0\<close>.
\<close>

theorem envelope_corners_ordered:
  assumes d: "design_aircraft conv rf n coef k' w' e ac = (Inr (), ac')"
    and fin: "cruise_altp ac' = Fin h" "cruise_mach ac' = Fin ma" "eff_ratio ac' = Fin ef"
      "kr ac' = Fin k" "npax ac' = Fin np" "mpax ac' = Fin w"
      "mtow ac' = Fin m" "fuel_mission ac' = Fin f"
    and pos: "0 < ma * ef" "0 \<le> k" "0 < np * w"
    and fuel: "0.2 * (np * w) < (1 + k) * f"
    and empty: "0 < m - np * w - (1 + k) * f"
  shows "\<exists>r1 r2 r3. range_pl_max ac' = Fin r1 \<and> range_fuel_max ac' = Fin r2
           \<and> range_no_pl ac' = Fin r3 \<and> 0 < r1 \<and> r1 < r2 \<and> r2 < r3
           \<and> payload_max ac' = Fin (np * w * 1.2)
           \<and> payload_fuel_max ac' = Fin (np * w * 0.4)
           \<and> np * w * 0.4 \<le> np * w * 1.2 \<and> 0 \<le> np * w * 0.4"
proof -
  from d obtain X ac2 r ac3 where
    e: "eval_design conv X ac2 = (Inr r, ac3)"
    and v: "design_envelope conv ac3 = (Inr (), ac')"
    by (rule design_aircraft_returned)
  note kp = design_envelope_fields[OF v]
  have f3: "cruise_altp ac3 = Fin h" "cruise_mach ac3 = Fin ma" "eff_ratio ac3 = Fin ef"
      "kr ac3 = Fin k" "npax ac3 = Fin np" "mpax ac3 = Fin w"
      "mtow ac3 = Fin m" "fuel_mission ac3 = Fin f"
    using kp fin by simp_all
  have x: "payload ac3 = fmul (npax ac3) (mpax ac3)"
    "owe ac3 = fsub (fsub (fsub (mtow ac3) (payload ac3)) (fuel_mission ac3))
                    (fmul (kr ac3) (fuel_mission ac3))"
    using eval_design_Inr(1)[OF e] by simp_all
  have pl: "payload ac3 = Fin (np * w)" using x f3 by simp
  have ow: "owe ac3 = Fin (m - np * w - f - k * f)" using x f3 by simp
  have "\<exists>a. atmosphere (cruise_altp ac3) (Fin 0) = Inr a"
    using v by (auto simp: design_envelope_def split: sum.splits)
  then have "h < 50000" using f3 atmosphere_returns_below by auto
  from atmosphere_vsnd[OF this] f3 obtain p t vs where vs: "0 < vs"
    and atm: "atmosphere (cruise_altp ac3) (Fin 0) = Inr (p, t, Fin vs, Fin 9.80665)"
    by auto
  define c where "c = ma * vs * ef / 9.80665"
  have c: "0 < c"
  proof -
    have "0 < (ma * ef) * vs" using pos(1) vs by (rule mult_pos_pos)
    then show ?thesis by (simp add: c_def mult.commute mult.left_commute)
  qed
  define F1 where "F1 = (m - (m - np * w - f - k * f) - np * w * 1.2) / (1 + k)"
  define F2 where "F2 = (m - (m - np * w - f - k * f) - np * w * 0.4) / (1 + k)"
  define T where "T = (m - np * w - f - k * f) + F2 * (1 + k)"
  from corner_ranges_ordered[OF c pos(2,3) fuel empty, folded F1_def F2_def T_def]
  have o: "0 < m" "F1 < m" "F2 < m" "0 < T" "F2 < T"
    "0 < c * ln (m / (m - F1))"
    "c * ln (m / (m - F1)) < c * ln (m / (m - F2))"
    "c * ln (m / (m - F2)) < c * ln (T / (T - F2))"
    by simp_all
  have k1: "1 + k \<noteq> 0" using pos by simp
  have g: "(9.80665::real) \<noteq> 0" by simp
  from design_envelope_value[OF atm g f3(2,3,4,7) ow pl k1 o(1)
      o(2)[unfolded F1_def] o(3)[unfolded F2_def] o(4)[unfolded T_def F2_def]
      o(5)[unfolded T_def F2_def], of conv, folded F1_def F2_def T_def c_def] v
  have "ac' = ac3\<lparr>cruise_speed := Fin (vs * ma), payload_max := Fin (np * w * 1.2),
                 range_pl_max := Fin (c * ln (m / (m - F1))),
                 payload_fuel_max := Fin (np * w * 0.4),
                 range_fuel_max := Fin (c * ln (m / (m - F2))),
                 range_no_pl := Fin (c * ln (T / (T - F2)))\<rparr>"
    by (simp add: F1_def F2_def T_def c_def)
  then have "range_pl_max ac' = Fin (c * ln (m / (m - F1)))"
    "range_fuel_max ac' = Fin (c * ln (m / (m - F2)))"
    "range_no_pl ac' = Fin (c * ln (T / (T - F2)))"
    "payload_max ac' = Fin (np * w * 1.2)"
    "payload_fuel_max ac' = Fin (np * w * 0.4)"
    by simp_all
  moreover have "np * w * 0.4 \<le> np * w * 1.2" "0 \<le> np * w * 0.4" using pos(3) by simp_all
  ultimately show ?thesis using o(6,7,8) by blast
qed


subsection \<open>A design for zero range with a linear structural law\<close>

lemma zero_range_setup:
  "design_setup kg_daN_h (Some [Fin 0, Fin 0.5, Fin 0]) None None None
       (example_aircraft\<lparr>range_ac := Fin 0\<rparr>)
     = (Inr (), example_aircraft\<lparr>range_ac := Fin 0, owe_coef := [Fin 0, Fin 0.5, Fin 0]\<rparr>)"
  by (simp add: design_setup_def example_aircraft_def l_o_d_def Let_def py_div_def
        py_max_def py_min_def)

lemma zero_range_first_evaluation:
  "\<exists>r2. eval_design kg_daN_h (Fin 78000, Fin 19500)
       (example_aircraft\<lparr>range_ac := Fin 0, owe_coef := [Fin 0, Fin 0.5, Fin 0]\<rparr>) =
     (Inr (Fin (- 975), r2),
      example_aircraft\<lparr>range_ac := Fin 0, owe_coef := [Fin 0, Fin 0.5, Fin 0],
        mtow := Fin 78000, fuel_mission := Fin 19500, fuel_reserve := Fin 975,
        ldw := Fin 58500, payload := Fin 19500, owe := Fin 38025\<rparr>)"
  by (simp add: eval_design_def structure_ac_def mission_def example_aircraft_def
        atmosphere_eval atm_gam_def atm_r_def atm_g_def)

lemma zero_range_root_evaluation:
  "eval_design kg_daN_h (Fin 39000, Fin 0)
       (example_aircraft\<lparr>range_ac := Fin 0, owe_coef := [Fin 0, Fin 0.5, Fin 0],
        mtow := a, fuel_mission := b, fuel_reserve := c,
        ldw := d, payload := e, owe := f\<rparr>) =
     (Inr (Fin 0, Fin 0),
      example_aircraft\<lparr>range_ac := Fin 0, owe_coef := [Fin 0, Fin 0.5, Fin 0],
        mtow := Fin 39000, fuel_mission := Fin 0, fuel_reserve := Fin 0,
        ldw := Fin 39000, payload := Fin 19500, owe := Fin 19500\<rparr>)"
  by (simp add: eval_design_def structure_ac_def mission_def example_aircraft_def
        atmosphere_eval atm_gam_def atm_r_def atm_g_def)


lemma zero_range_solve:
  "fsolve 100 (try_points (small2 (1 / 1000)) [(Fin 39000, Fin 0)]) (eval_design kg_daN_h)
       (Fin 78000, Fin 19500)
       (example_aircraft\<lparr>range_ac := Fin 0, owe_coef := [Fin 0, Fin 0.5, Fin 0]\<rparr>)
     = (Inr ((Fin 39000, Fin 0), 1),
        example_aircraft\<lparr>range_ac := Fin 0, owe_coef := [Fin 0, Fin 0.5, Fin 0],
          mtow := Fin 39000, fuel_mission := Fin 0, fuel_reserve := Fin 0,
          ldw := Fin 39000, payload := Fin 19500, owe := Fin 19500\<rparr>)"
proof -
  let ?rf = "try_points (small2 (1 / 1000)) [(Fin 39000, Fin 0)]"
  let ?s0 = "example_aircraft\<lparr>range_ac := Fin 0, owe_coef := [Fin 0, Fin 0.5, Fin 0]\<rparr>"
  let ?s1 = "example_aircraft\<lparr>range_ac := Fin 0, owe_coef := [Fin 0, Fin 0.5, Fin 0],
        mtow := Fin 78000, fuel_mission := Fin 19500, fuel_reserve := Fin 975,
        ldw := Fin 58500, payload := Fin 19500, owe := Fin 38025\<rparr>"
  let ?s2 = "example_aircraft\<lparr>range_ac := Fin 0, owe_coef := [Fin 0, Fin 0.5, Fin 0],
          mtow := Fin 39000, fuel_mission := Fin 0, fuel_reserve := Fin 0,
          ldw := Fin 39000, payload := Fin 19500, owe := Fin 19500\<rparr>"
  obtain r2 where e1: "eval_design kg_daN_h (Fin 78000, Fin 19500) ?s0
      = (Inr (Fin (- 975), r2), ?s1)"
    using zero_range_first_evaluation by blast
  have e2: "eval_design kg_daN_h (Fin 39000, Fin 0) ?s1 = (Inr (Fin 0, Fin 0), ?s2)"
    by (rule zero_range_root_evaluation)
  let ?h1 = "[((Fin 78000, Fin 19500), (Fin (- 975), r2))]"
  have 1: "?rf (Fin 78000, Fin 19500) ?h1 = Evaluate (Fin 39000, Fin 0)"
    by (simp add: try_points_def small2_def small_def)
  have 2: "?rf (Fin 78000, Fin 19500) (?h1 @ [((Fin 39000, Fin 0), (Fin 0, Fin 0))])
             = Finish (Fin 39000, Fin 0) 1"
    by (simp add: try_points_def small2_def small_def)
  have 3: "(0::nat) < 100" by simp
  show ?thesis
    unfolding fsolve_def e1
    by (simp only: prod.case sum.case
          fsolve_iter_evaluate[where rf="?rf" and func="eval_design kg_daN_h", OF 1 e2 3]
          fsolve_iter_finish[where rf="?rf", OF 2])
qed

lemma zero_range_run:
  "\<exists>v. 0 < v \<and>
     design_aircraft kg_daN_h (try_points (small2 (1 / 1000)) [(Fin 39000, Fin 0)]) 100
       (Some [Fin 0, Fin 0.5, Fin 0]) None None None (example_aircraft\<lparr>range_ac := Fin 0\<rparr>)
     = (Inr (),
        example_aircraft\<lparr>range_ac := Fin 0, owe_coef := [Fin 0, Fin 0.5, Fin 0],
          mtow := Fin 39000, fuel_mission := Fin 0, fuel_reserve := Fin 0,
          ldw := Fin 39000, payload := Fin 19500, owe := Fin 19500,
          cruise_speed := Fin (v * 0.78), payload_max := Fin 23400,
          range_pl_max := Fin (0.78 * v * 1300000 / 9.80665 * ln (39000 / (39000 + 3900 / 1.05))),
          payload_fuel_max := Fin 7800,
          range_fuel_max := Fin (0.78 * v * 1300000 / 9.80665 * ln (39000 / (39000 - 11700 / 1.05))),
          range_no_pl := Fin (0.78 * v * 1300000 / 9.80665 * ln (31200 / (31200 - 11700 / 1.05)))\<rparr>)"
proof -
  let ?s2 = "example_aircraft\<lparr>range_ac := Fin 0, owe_coef := [Fin 0, Fin 0.5, Fin 0],
          mtow := Fin 39000, fuel_mission := Fin 0, fuel_reserve := Fin 0,
          ldw := Fin 39000, payload := Fin 19500, owe := Fin 19500\<rparr>"
  have h: "(10668::real) < 50000" by simp
  from atmosphere_vsnd[OF h] obtain p t v where v: "0 < v"
    and atm: "atmosphere (Fin 10668) (Fin 0) = Inr (p, t, Fin v, Fin 9.80665)"
    by blast
  have atm': "atmosphere (cruise_altp ?s2) (Fin 0) = Inr (p, t, Fin v, Fin 9.80665)"
    using atm by (simp add: example_aircraft_def)
  have g: "(9.80665::real) \<noteq> 0" by simp
  have env: "design_envelope kg_daN_h ?s2 =
     (Inr (), ?s2\<lparr>cruise_speed := Fin (v * 0.78), payload_max := Fin (19500 * 1.2),
          range_pl_max := Fin (0.78 * v * 1300000 / 9.80665
             * ln (39000 / (39000 - (39000 - 19500 - 19500 * 1.2) / (1 + 0.05)))),
          payload_fuel_max := Fin (19500 * 0.4),
          range_fuel_max := Fin (0.78 * v * 1300000 / 9.80665
             * ln (39000 / (39000 - (39000 - 19500 - 19500 * 0.4) / (1 + 0.05)))),
          range_no_pl := Fin (0.78 * v * 1300000 / 9.80665
             * ln ((19500 + (39000 - 19500 - 19500 * 0.4) / (1 + 0.05) * (1 + 0.05))
                   / ((19500 + (39000 - 19500 - 19500 * 0.4) / (1 + 0.05) * (1 + 0.05))
                      - (39000 - 19500 - 19500 * 0.4) / (1 + 0.05))))\<rparr>)"
    by (rule design_envelope_value[OF atm' g]) (simp_all add: example_aircraft_def)
  have "design_aircraft kg_daN_h (try_points (small2 (1 / 1000)) [(Fin 39000, Fin 0)]) 100
       (Some [Fin 0, Fin 0.5, Fin 0]) None None None (example_aircraft\<lparr>range_ac := Fin 0\<rparr>)
     = design_envelope kg_daN_h ?s2"
  proof -
    have xi: "Xini (example_aircraft\<lparr>range_ac := Fin 0, owe_coef := [Fin 0, Fin 0.5, Fin 0]\<rparr>)
        = (Fin 78000, Fin 19500)"
      by (simp add: Xini_def example_aircraft_def)
    show ?thesis
      by (simp only: design_aircraft_def zero_range_setup prod.case sum.case xi
            zero_range_solve fst_conv snd_conv zero_range_root_evaluation simp_thms if_False)
  qed
  also note env
  finally show ?thesis using v by (intro exI[of _ v]) simp
qed


theorem converged_design_balances_witness:
  "sound_root_finder (small2 (1 / 1000)) (try_points (small2 (1 / 1000)) [(Fin 39000, Fin 0)])
   \<and> (\<exists>ac'. design_aircraft kg_daN_h (try_points (small2 (1 / 1000)) [(Fin 39000, Fin 0)]) 100
             (Some [Fin 0, Fin 0.5, Fin 0]) None None None (example_aircraft\<lparr>range_ac := Fin 0\<rparr>)
           = (Inr (), ac')
        \<and> mtow ac' = Fin 39000 \<and> fuel_mission ac' = Fin 0
        \<and> (\<exists>owe_eff range_eff.
              fst (structure_ac (mtow ac') None ac') = Inr owe_eff
            \<and> fst (mission kg_daN_h (mtow ac') (fuel_mission ac') None ac') = Inr range_eff
            \<and> small (1 / 1000)
                 (fsub (fsub (fsub (fsub (mtow ac') (payload ac')) (fuel_mission ac'))
                             (fuel_reserve ac')) owe_eff)
            \<and> small (1 / 1000) (fsub (range_ac ac') range_eff)))"
proof -
  have s: "sound_root_finder (small2 (1 / 1000))
             (try_points (small2 (1 / 1000)) [(Fin 39000, Fin 0)])"
    by (rule try_points_sound)
  from zero_range_run obtain ac' where
    d: "design_aircraft kg_daN_h (try_points (small2 (1 / 1000)) [(Fin 39000, Fin 0)]) 100
             (Some [Fin 0, Fin 0.5, Fin 0]) None None None (example_aircraft\<lparr>range_ac := Fin 0\<rparr>)
           = (Inr (), ac')"
    and m: "mtow ac' = Fin 39000" "fuel_mission ac' = Fin 0"
    by auto
  from converged_design_balances[OF s d] s d m show ?thesis by blast
qed

text \<open>
  C4, as stated: after every successful \<open>design_aircraft\<close> the range of the
  maximum payload mission is positive. For a requested range of zero and the linear
  structural law \<open>owe = 0.5 mtow\<close> the balance has the exact solution
  \<open>mtow = 39000\<close>, \<open>fuel_mission = 0\<close>; the design succeeds, and the fuel
  left for 1.2 times the payload is negative, so \<open>range_pl_max\<close> is negative. The
  same happens for every design whose mission fuel is below 0.2 payload / (1 + kr).
\<close>

theorem short_design_negative_range_counterexample:
  "fst (design_aircraft kg_daN_h (try_points (small2 (1 / 1000)) [(Fin 39000, Fin 0)]) 100
          (Some [Fin 0, Fin 0.5, Fin 0]) None None None (example_aircraft\<lparr>range_ac := Fin 0\<rparr>))
     = Inr ()
   \<and> \<not> flt (Fin 0)
         (range_pl_max (snd (design_aircraft kg_daN_h
            (try_points (small2 (1 / 1000)) [(Fin 39000, Fin 0)]) 100
            (Some [Fin 0, Fin 0.5, Fin 0]) None None None
            (example_aircraft\<lparr>range_ac := Fin 0\<rparr>))))"
proof -
  from zero_range_run obtain v ac' where v: "0 < v"
    and d: "design_aircraft kg_daN_h (try_points (small2 (1 / 1000)) [(Fin 39000, Fin 0)]) 100
             (Some [Fin 0, Fin 0.5, Fin 0]) None None None (example_aircraft\<lparr>range_ac := Fin 0\<rparr>)
           = (Inr (), ac')"
    and r: "range_pl_max ac'
       = Fin (0.78 * v * 1300000 / 9.80665 * ln (39000 / (39000 + 3900 / 1.05)))"
    by auto
  have "0 < 0.78 * v * 1300000 / 9.80665" using v by simp
  moreover have "ln (39000 / (39000 + 3900 / 1.05)) < (0::real)" by (simp add: ln_less_zero)
  ultimately have "0.78 * v * 1300000 / 9.80665 * ln (39000 / (39000 + 3900 / 1.05)) < 0"
    by (rule mult_pos_neg)
  then show ?thesis using d r by simp
qed

lemma accepted_guess_run:
  "\<exists>ac'. design_aircraft kg_daN_h (try_points (\<lambda>r. True) []) 100 None None None None
            example_aircraft = (Inr (), ac')
     \<and> cruise_altp ac' = Fin 10668 \<and> cruise_mach ac' = Fin 0.78
     \<and> eff_ratio ac' = Fin 1300000 \<and> kr ac' = Fin 0.05 \<and> npax ac' = Fin 150
     \<and> mpax ac' = Fin 130 \<and> mtow ac' = Fin 78000 \<and> fuel_mission ac' = Fin 19500"
proof -
  let ?s1 = "example_aircraft\<lparr>mtow := Fin 78000, fuel_mission := Fin 19500,
        fuel_reserve := Fin 975, ldw := Fin 58500, payload := Fin 19500, owe := Fin 38025\<rparr>"
  obtain r2 where e: "eval_design kg_daN_h (Fin 78000, Fin 19500) example_aircraft =
     (Inr (Fin (- 4495.9848), r2), ?s1)"
    using eval_design_example_x0 by blast
  have fr: "fst (eval_design kg_daN_h (Fin 78000, Fin 19500) ?s1)
      = fst (eval_design kg_daN_h (Fin 78000, Fin 19500) example_aircraft)"
    by (rule eval_design_depends) (simp add: frame_def)
  obtain r' s' where e': "eval_design kg_daN_h (Fin 78000, Fin 19500) ?s1 = (Inr r', s')"
    using fr e by (cases "eval_design kg_daN_h (Fin 78000, Fin 19500) ?s1") simp
  have s': "s' = ?s1" using eval_design_Inr(1)[OF e'] by (simp add: example_aircraft_def)
  have f: "fsolve 100 (try_points (\<lambda>r. True) []) (eval_design kg_daN_h)
          (Xini example_aircraft) example_aircraft = (Inr ((Fin 78000, Fin 19500), 1), ?s1)"
    by (simp add: Xini_example fsolve_def e fsolve_iter_finish try_points_def)
  have h: "(10668::real) < 50000" by simp
  from atmosphere_vsnd[OF h] obtain p t v where
    atm: "atmosphere (Fin 10668) (Fin 0) = Inr (p, t, Fin v, Fin 9.80665)"
    by blast
  have atm': "atmosphere (cruise_altp ?s1) (Fin 0) = Inr (p, t, Fin v, Fin 9.80665)"
    using atm by (simp add: example_aircraft_def)
  have g: "(9.80665::real) \<noteq> 0" by simp
  have "\<exists>ac'. design_envelope kg_daN_h ?s1 = (Inr (), ac')"
    using design_envelope_value[where s="?s1" and conv=kg_daN_h and ma="0.78"
        and ef=1300000 and k="0.05" and m=78000 and ow=38025 and pl=19500, OF atm' g]
    by (simp add: example_aircraft_def)
  then obtain ac' where env: "design_envelope kg_daN_h ?s1 = (Inr (), ac')" by blast
  have d: "design_aircraft kg_daN_h (try_points (\<lambda>r. True) []) 100 None None None None
            example_aircraft = (Inr (), ac')"
    using f e' s' env by (simp add: design_aircraft_def design_setup_example)
  from design_envelope_fields[OF env] d show ?thesis
    by (intro exI[of _ ac']) (simp add: example_aircraft_def)
qed

theorem envelope_corners_ordered_witness:
  "\<exists>ac' r1 r2 r3.
      design_aircraft kg_daN_h (try_points (\<lambda>r. True) []) 100 None None None None
          example_aircraft = (Inr (), ac')
    \<and> mtow ac' = Fin 78000 \<and> fuel_mission ac' = Fin 19500
    \<and> range_pl_max ac' = Fin r1 \<and> range_fuel_max ac' = Fin r2 \<and> range_no_pl ac' = Fin r3
    \<and> 0 < r1 \<and> r1 < r2 \<and> r2 < r3
    \<and> payload_max ac' = Fin 23400 \<and> payload_fuel_max ac' = Fin 7800"
proof -
  from accepted_guess_run obtain ac' where
    d: "design_aircraft kg_daN_h (try_points (\<lambda>r. True) []) 100 None None None None
            example_aircraft = (Inr (), ac')"
    and fin: "cruise_altp ac' = Fin 10668" "cruise_mach ac' = Fin 0.78"
      "eff_ratio ac' = Fin 1300000" "kr ac' = Fin 0.05" "npax ac' = Fin 150"
      "mpax ac' = Fin 130" "mtow ac' = Fin 78000" "fuel_mission ac' = Fin 19500"
    by blast
  have pos: "(0::real) < 0.78 * 1300000" "(0::real) \<le> 0.05" "(0::real) < 150 * 130"
    and fuel: "0.2 * (150 * 130) < (1 + 0.05) * (19500::real)"
    and empty: "(0::real) < 78000 - 150 * 130 - (1 + 0.05) * 19500"
    by simp_all
  from envelope_corners_ordered[OF d fin pos fuel empty] d fin show ?thesis
    by auto
qed

section \<open>Converged propulsor balances\<close>

text \<open>The root-finder runs of the nacelle have no state to change.\<close>

lemma fsolve_sound_pure:
  assumes "sound_root_finder ok rf"
    and "fsolve n rf (\<lambda>x u. (f x, u)) x0 () = (Inr (x, 1), u')"
  shows "\<exists>r. f x = Inr r \<and> ok r"
  using fsolve_sound[where key="\<lambda>u. ()" and func="\<lambda>x u. (f x, u)", OF assms(1) _ _ assms(2)]
  by simp

lemma sc_fct_components:
  "sc_fct ea nac (q, Pw) thrust pamb Ttot Vair =
     bind_exc (thrust_fct ea nac q Pw pamb Ttot Vair) (\<lambda>y1.
       Inr (y1, fsub thrust
          (fmul q (fsub (np_sqrt (fadd (np_div (fmul (Fin 2) (fmul (efficiency_fan nac) Pw)) q)
                                        (np_power Vair (Fin 2)))) Vair))))"
  by (simp add: sc_fct_def thrust_fct_def bind_exc_def Let_def
           split: prod.splits sum.splits option.splits)

text \<open>
  C5. Let the root-finder give the flag 1 only for a flow whose residual is within
  the tolerance. Whenever \<open>unitary_thrust\<close> returns, there is a solved flow \<open>q\<close>
  for which the continuity residual, the corrected flow at the nozzle conditions
  \<open>PtotJet\<close>, \<open>TtotJet = Ttot + PwShaft/(q Cp)\<close>, \<open>MachJet\<close> times the nozzle
  area minus \<open>q\<close>, is within the tolerance, with the jet velocity
  \<open>Vjet = sqrt(2 efficiency_fan PwShaft / q + Vinlet^2)\<close>; the returned thrust is
  \<open>q (Vjet - Vinlet)\<close> for this flow and this jet velocity, and the returned power is
  \<open>efficiency_fan PwShaft\<close>.
\<close>

theorem converged_thrust_conserves:
  assumes "sound_root_finder (small tol) rf"
    and "unitary_thrust ea rf n nac pamb tamb mach rating throttle pw_offtake = Inr out"
  shows "\<exists>PwShaft Ttot Vair q0init q y r gam Cp Cv.
      thrust_setup ea nac pamb tamb mach rating throttle pw_offtake
        = Inr (PwShaft, Ttot, Vair, q0init)
    \<and> gas_data ea = (r, gam, Cp, Cv)
    \<and> thrust_fct ea nac q PwShaft pamb Ttot Vair = Inr y \<and> small tol y
    \<and> (let Vjet = np_sqrt (fadd (np_div (fmul (Fin 2) (fmul (efficiency_fan nac) PwShaft)) q)
                                (np_power Vair (Fin 2)));
            TtotJet = fadd Ttot (np_div PwShaft (fmul q Cp));
            TstatJet = fsub TtotJet (np_div (fmul (Fin 0.5) (np_power Vjet (Fin 2))) Cp);
            MachJet = np_div Vjet (sound_speed ea TstatJet);
            PtotJet = total_pressure ea pamb MachJet
        in (\<exists>cqoa area. corrected_air_flow ea PtotJet TtotJet MachJet = Inr cqoa
              \<and> nozzle_area nac = Some area \<and> y = fsub (fmul cqoa area) q)
           \<and> fn out = fmul q (fsub Vjet Vair))
    \<and> pw out = fmul (efficiency_fan nac) PwShaft"
proof -
  from assms(2) obtain PwShaft Ttot Vair q0init where
    s: "thrust_setup ea nac pamb tamb mach rating throttle pw_offtake
        = Inr (PwShaft, Ttot, Vair, q0init)"
    by (auto simp: unitary_thrust_def bind_exc_def split: sum.splits)
  obtain res u where f: "fsolve n rf (\<lambda>q u. (thrust_fct ea nac q PwShaft pamb Ttot Vair, u))
      q0init () = (res, u)"
    by (cases "fsolve n rf (\<lambda>q u. (thrust_fct ea nac q PwShaft pamb Ttot Vair, u)) q0init ()")
  from assms(2) s f obtain q ier where res: "res = Inr (q, ier)"
    by (cases res) (auto simp: unitary_thrust_def bind_exc_def)
  from assms(2) s f res have ier: "ier = 1"
    by (auto simp: unitary_thrust_def bind_exc_def split: if_splits)
  from assms(2) s f res ier have out:
    "out = \<lparr>fn = fmul q (fsub (np_sqrt (fadd (np_div (fmul (Fin 2)
                 (fmul (efficiency_fan nac) PwShaft)) q) (np_power Vair (Fin 2)))) Vair),
            pw = fmul (efficiency_fan nac) PwShaft\<rparr>"
    by (simp add: unitary_thrust_def bind_exc_def Let_def)
  from fsolve_sound_pure[OF assms(1) f[unfolded res ier]]
  obtain y where y: "thrust_fct ea nac q PwShaft pamb Ttot Vair = Inr y" "small tol y"
    by blast
  obtain r gam Cp Cv where g: "gas_data ea = (r, gam, Cp, Cv)"
    by (cases "gas_data ea")
  from y(1) g have "(let Vjet = np_sqrt (fadd (np_div (fmul (Fin 2)
                        (fmul (efficiency_fan nac) PwShaft)) q) (np_power Vair (Fin 2)));
            TtotJet = fadd Ttot (np_div PwShaft (fmul q Cp));
            TstatJet = fsub TtotJet (np_div (fmul (Fin 0.5) (np_power Vjet (Fin 2))) Cp);
            MachJet = np_div Vjet (sound_speed ea TstatJet);
            PtotJet = total_pressure ea pamb MachJet
        in (\<exists>cqoa area. corrected_air_flow ea PtotJet TtotJet MachJet = Inr cqoa
              \<and> nozzle_area nac = Some area \<and> y = fsub (fmul cqoa area) q))"
    by (auto simp: thrust_fct_def bind_exc_def Let_def split: sum.splits option.splits)
  with s g y out show ?thesis
    by (simp add: Let_def) blast
qed

text \<open>
  C6. In \<open>unitary_sc\<close> the unknowns are the flow \<open>q\<close> and the shaft power
  together; the first residual is the continuity residual of \<open>unitary_thrust\<close> and
  the second is the requested thrust minus \<open>q (Vjet - Vinlet)\<close>. Let the
  root-finder give the flag 1 only for a point whose two residuals are within the
  tolerance. Whenever \<open>unitary_sc\<close> returns, the thrust recomputed from the solved
  flow and power differs from the requested thrust by at most the tolerance, the
  returned specific consumption is the solved shaft power divided by that thrust, and
  the returned power is the solved shaft power.
\<close>

theorem converged_sc_matches_thrust:
  assumes "sound_root_finder (small2 tol) rf"
    and "unitary_sc ea rf n nac pamb tamb mach rating thrust pw_offtake = Inr out"
  shows "\<exists>Ttot Vair q0init PWinit q Pw y1 y2.
      sc_setup ea nac pamb tamb mach rating pw_offtake = Inr (Ttot, Vair, q0init, PWinit)
    \<and> sc_fct ea nac (q, Pw) thrust pamb Ttot Vair = Inr (y1, y2)
    \<and> thrust_fct ea nac q Pw pamb Ttot Vair = Inr y1
    \<and> small tol y1 \<and> small tol y2
    \<and> (let Vjet = np_sqrt (fadd (np_div (fmul (Fin 2) (fmul (efficiency_fan nac) Pw)) q)
                                (np_power Vair (Fin 2)));
            eFn = fmul q (fsub Vjet Vair)
        in y2 = fsub thrust eFn \<and> small tol (fsub thrust eFn)
           \<and> sec out = np_div Pw eFn)
    \<and> pw_sc out = Pw"
proof -
  from assms(2) obtain Ttot Vair q0init PWinit where
    s: "sc_setup ea nac pamb tamb mach rating pw_offtake = Inr (Ttot, Vair, q0init, PWinit)"
    by (auto simp: unitary_sc_def bind_exc_def split: sum.splits)
  obtain res u where f: "fsolve n rf (\<lambda>x u. (sc_fct ea nac x thrust pamb Ttot Vair, u))
      (q0init, PWinit) () = (res, u)"
    by (cases "fsolve n rf (\<lambda>x u. (sc_fct ea nac x thrust pamb Ttot Vair, u)) (q0init, PWinit) ()")
  from assms(2) s f obtain x ier where res: "res = Inr (x, ier)"
    by (cases res) (auto simp: unitary_sc_def bind_exc_def)
  obtain q Pw where x: "x = (q, Pw)" by (cases x)
  from assms(2) s f res have ier: "ier = 1"
    by (auto simp: unitary_sc_def bind_exc_def split: if_splits)
  from assms(2) s f res ier x have out:
    "sec out = np_div Pw (fmul q (fsub (np_sqrt (fadd (np_div (fmul (Fin 2)
                 (fmul (efficiency_fan nac) Pw)) q) (np_power Vair (Fin 2)))) Vair))"
    "pw_sc out = Pw"
    by (auto simp: unitary_sc_def bind_exc_def Let_def split: sum.splits)
  from fsolve_sound_pure[OF assms(1) f[unfolded res ier x]]
  obtain y where y: "sc_fct ea nac (q, Pw) thrust pamb Ttot Vair = Inr y" "small2 tol y"
    by blast
  obtain y1 y2 where yy: "y = (y1, y2)" by (cases y)
  from y(1) yy have c: "thrust_fct ea nac q Pw pamb Ttot Vair = Inr y1"
    "y2 = fsub thrust (fmul q (fsub (np_sqrt (fadd (np_div (fmul (Fin 2)
                 (fmul (efficiency_fan nac) Pw)) q) (np_power Vair (Fin 2)))) Vair))"
    by (auto simp: sc_fct_components bind_exc_def split: sum.splits)
  from y(2) yy have sm: "small tol y1" "small tol y2" by (simp_all add: small2_def)
  from s y(1) yy c sm out show ?thesis
    by (simp add: Let_def) blast
qed


subsection \<open>A windmilling fan in the perfect-gas atmosphere\<close>

lemma isa_flow_positive:
  assumes "0 < pa" "0 < M" "0 < T"
  shows "\<exists>c0. 0 < c0 \<and>
     corrected_air_flow isa_earth (total_pressure isa_earth (Fin pa) (Fin M))
        (total_temperature isa_earth (Fin T) (Fin M)) (Fin M) = Inr (Fin c0)"
proof -
  define b where "b = 1 + 0.2 * M\<^sup>2"
  have b: "0 < b" unfolding b_def by (simp add: add_pos_nonneg)
  have tb: "0 < T * b" using assms b by simp
  have pt: "total_pressure isa_earth (Fin pa) (Fin M) = Fin (pa * b powr 3.5)"
    using assms b[unfolded b_def] by (simp add: isa_earth_def b_def)
  have tt: "total_temperature isa_earth (Fin T) (Fin M) = Fin (T * b)"
    using assms by (simp add: isa_earth_def b_def)
  have ex: "py_div (fneg (fadd (Fin 1.4) (Fin 1))) (fmul (Fin 2) (fsub (Fin 1.4) (Fin 1)))
      = Inr (Fin (- 3))"
    by (simp add: py_div_def)
  have gr: "py_div (Fin 1.4) (Fin 287.053) = Inr (Fin (1.4 / 287.053))"
    by (simp add: py_div_def)
  have base: "fadd (Fin 1) (fmul (fmul (Fin 0.5) (fsub (Fin 1.4) (Fin 1)))
                 (np_power (Fin M) (Fin 2))) = Fin b"
    using assms by (simp add: b_def)
  have pw: "np_power (Fin b) (Fin (- 3)) = Fin (b powr (- 3))" using b by simp
  have sq: "np_sqrt (Fin (T * b)) = Fin (sqrt (T * b))" using tb by simp
  have sg: "np_sqrt (Fin (1.4 / 287.053)) = Fin (sqrt (1.4 / 287.053))" by simp
  have nz: "sqrt (T * b) \<noteq> 0" using assms b by simp
  have "corrected_air_flow isa_earth (Fin (pa * b powr 3.5)) (Fin (T * b)) (Fin M)
      = Inr (Fin (sqrt (1.4 / 287.053) * (pa * b powr 3.5) / sqrt (T * b) * (M * b powr (- 3))))"
    unfolding corrected_air_flow_def
    by (simp only: isa_earth_def earth.simps prod.case ex gr base pw sq sg bind_exc_def
          sum.case Let_def fmul.simps np_div.simps nz if_True simp_thms)
  moreover have "0 < sqrt (1.4 / 287.053) * (pa * b powr 3.5) / sqrt (T * b) * (M * b powr (- 3))"
    using assms b tb by simp
  ultimately show ?thesis unfolding pt tt by blast
qed


text \<open>
  With no shaft power the jet leaves at the flight speed, and the state at the nozzle
  is the state of the free stream.
\<close>

lemma windmill_jet:
  assumes M: "0 < M" and T: "0 < T" and Q: "Q \<noteq> 0"
  shows "\<exists>a. 0 < a \<and> fmul (Fin M) (sound_speed isa_earth (Fin T)) = Fin (M * a)
      \<and> np_sqrt (fadd (np_div (fmul (Fin 2) (fmul (Fin eta) (Fin 0))) (Fin Q))
                       (np_power (Fin (M * a)) (Fin 2))) = Fin (M * a)
      \<and> (\<forall>nac pamb A. nozzle_area nac = Some A \<longrightarrow> efficiency_fan nac = Fin eta \<longrightarrow>
           thrust_fct isa_earth nac (Fin Q) (Fin 0) pamb
             (total_temperature isa_earth (Fin T) (Fin M)) (Fin (M * a))
           = bind_exc (corrected_air_flow isa_earth (total_pressure isa_earth pamb (Fin M))
                         (total_temperature isa_earth (Fin T) (Fin M)) (Fin M))
               (\<lambda>c. Inr (fsub (fmul c A) (Fin Q))))"
proof -
  define a where "a = sqrt (1.4 * 287.053 * T)"
  have a: "0 < a" using T by (simp add: a_def)
  have a2: "a\<^sup>2 = 1.4 * 287.053 * T" using T by (simp add: a_def)
  have gd: "gas_data isa_earth = (Fin 287.053, Fin 1.4, Fin 1004.6855, Fin 717.6325)"
    by (simp add: isa_earth_def)
  have ss: "sound_speed isa_earth (Fin T) = Fin a"
    using T by (simp add: isa_earth_def a_def)
  have va: "fmul (Fin M) (Fin a) = Fin (M * a)" by simp
  have Ma: "0 < M * a" using M a by simp
  have vj: "np_sqrt (fadd (np_div (fmul (Fin 2) (fmul (Fin eta) (Fin 0))) (Fin Q))
                       (np_power (Fin (M * a)) (Fin 2))) = Fin (M * a)"
    using Ma Q by simp
  have tt: "total_temperature isa_earth (Fin T) (Fin M) = Fin (T * (1 + 0.2 * M\<^sup>2))"
    using M by (simp add: isa_earth_def)
  have ttj: "fadd (total_temperature isa_earth (Fin T) (Fin M))
               (np_div (Fin 0) (fmul (Fin Q) (Fin 1004.6855)))
             = total_temperature isa_earth (Fin T) (Fin M)"
    using Q by (simp add: tt)
  have e: "(M * a)\<^sup>2 = M\<^sup>2 * (1.4 * 287.053 * T)" by (simp add: power_mult_distrib a2)
  have r: "T * (1 + 0.2 * M\<^sup>2) - 0.5 * (M\<^sup>2 * (1.4 * 287.053 * T)) / 1004.6855 = T"
    by (simp add: field_simps)
  have "T * (1 + 0.2 * M\<^sup>2) - 0.5 * (M * a)\<^sup>2 / 1004.6855 = T"
    by (subst e) (rule r)
  then have ts: "fsub (total_temperature isa_earth (Fin T) (Fin M))
               (np_div (fmul (Fin 0.5) (np_power (Fin (M * a)) (Fin 2))) (Fin 1004.6855))
             = Fin T"
    using Ma by (simp add: tt)
  have mj: "np_div (Fin (M * a)) (Fin a) = Fin M" using a by simp
  have main: "thrust_fct isa_earth nac (Fin Q) (Fin 0) pamb
             (total_temperature isa_earth (Fin T) (Fin M)) (Fin (M * a))
           = bind_exc (corrected_air_flow isa_earth (total_pressure isa_earth pamb (Fin M))
                         (total_temperature isa_earth (Fin T) (Fin M)) (Fin M))
               (\<lambda>c. Inr (fsub (fmul c A) (Fin Q)))"
    if "nozzle_area nac = Some A" "efficiency_fan nac = Fin eta" for nac pamb A
    unfolding thrust_fct_def
    by (simp only: gd prod.case Let_def that vj ttj ts ss mj option.case)
  from a ss va vj main show ?thesis by (intro exI[of _ a]) simp
qed


lemma windmill_example:
  "\<exists>c0 a. 0 < c0 \<and> 0 < a
     \<and> corrected_air_flow isa_earth (total_pressure isa_earth (Fin 101325) (Fin 0.5))
          (total_temperature isa_earth (Fin 288.15) (Fin 0.5)) (Fin 0.5) = Inr (Fin c0)
     \<and> fmul (Fin 0.5) (sound_speed isa_earth (Fin 288.15)) = Fin (0.5 * a)
     \<and> np_sqrt (fadd (np_div (fmul (Fin 2) (fmul (Fin 0.95) (Fin 0))) (Fin (c0 * pi)))
                       (np_power (Fin (0.5 * a)) (Fin 2))) = Fin (0.5 * a)
     \<and> thrust_fct isa_earth example_nacelle (Fin (c0 * pi)) (Fin 0) (Fin 101325)
          (total_temperature isa_earth (Fin 288.15) (Fin 0.5)) (Fin (0.5 * a)) = Inr (Fin 0)"
proof -
  have p: "(0::real) < 101325" "(0::real) < 0.5" "(0::real) < 288.15" by simp_all
  from isa_flow_positive[OF p] obtain c0 where c0: "0 < c0"
    and cf: "corrected_air_flow isa_earth (total_pressure isa_earth (Fin 101325) (Fin 0.5))
        (total_temperature isa_earth (Fin 288.15) (Fin 0.5)) (Fin 0.5) = Inr (Fin c0)"
    by blast
  have Q: "c0 * pi \<noteq> 0" using c0 by simp
  from windmill_jet[OF p(2,3) Q, of "0.95"] obtain a where a: "0 < a"
    and va: "fmul (Fin 0.5) (sound_speed isa_earth (Fin 288.15)) = Fin (0.5 * a)"
    and vj: "np_sqrt (fadd (np_div (fmul (Fin 2) (fmul (Fin 0.95) (Fin 0))) (Fin (c0 * pi)))
                       (np_power (Fin (0.5 * a)) (Fin 2))) = Fin (0.5 * a)"
    and tf: "\<And>nac pamb A. nozzle_area nac = Some A \<Longrightarrow> efficiency_fan nac = Fin 0.95 \<Longrightarrow>
           thrust_fct isa_earth nac (Fin (c0 * pi)) (Fin 0) pamb
             (total_temperature isa_earth (Fin 288.15) (Fin 0.5)) (Fin (0.5 * a))
           = bind_exc (corrected_air_flow isa_earth (total_pressure isa_earth pamb (Fin 0.5))
                         (total_temperature isa_earth (Fin 288.15) (Fin 0.5)) (Fin 0.5))
               (\<lambda>c. Inr (fsub (fmul c A) (Fin (c0 * pi))))"
    by blast
  have r: "thrust_fct isa_earth example_nacelle (Fin (c0 * pi)) (Fin 0) (Fin 101325)
          (total_temperature isa_earth (Fin 288.15) (Fin 0.5)) (Fin (0.5 * a)) = Inr (Fin 0)"
    using tf[of example_nacelle "Fin pi" "Fin 101325"] cf
    by (simp add: example_nacelle_def bind_exc_def)
  from c0 a cf va vj r show ?thesis by blast
qed

lemma windmill_thrust_run:
  "unitary_thrust isa_earth (try_points (small (1 / 1000)) []) 100 example_nacelle
          (Fin 101325) (Fin 288.15) (Fin 0.5) ''MTO'' (Fin 0) (Fin 0)
        = Inr \<lparr>fn = Fin 0, pw = Fin 0\<rparr>"
proof -
  from windmill_example obtain c0 a where
    cf: "corrected_air_flow isa_earth (total_pressure isa_earth (Fin 101325) (Fin 0.5))
        (total_temperature isa_earth (Fin 288.15) (Fin 0.5)) (Fin 0.5) = Inr (Fin c0)"
    and va: "fmul (Fin 0.5) (sound_speed isa_earth (Fin 288.15)) = Fin (0.5 * a)"
    and vj: "np_sqrt (fadd (np_div (fmul (Fin 2) (fmul (Fin 0.95) (Fin 0))) (Fin (c0 * pi)))
                       (np_power (Fin (0.5 * a)) (Fin 2))) = Fin (0.5 * a)"
    and r: "thrust_fct isa_earth example_nacelle (Fin (c0 * pi)) (Fin 0) (Fin 101325)
          (total_temperature isa_earth (Fin 288.15) (Fin 0.5)) (Fin (0.5 * a)) = Inr (Fin 0)"
    by blast
  have s: "thrust_setup isa_earth example_nacelle (Fin 101325) (Fin 288.15) (Fin 0.5) ''MTO''
          (Fin 0) (Fin 0)
        = Inr (Fin 0, total_temperature isa_earth (Fin 288.15) (Fin 0.5), Fin (0.5 * a),
               Fin (c0 * pi))"
    using cf va
    by (simp add: thrust_setup_def bind_exc_def dict_get_def example_nacelle_def Let_def)
  have f: "fsolve 100 (try_points (small (1 / 1000)) [])
        (\<lambda>q u. (thrust_fct isa_earth example_nacelle q (Fin 0) (Fin 101325)
            (total_temperature isa_earth (Fin 288.15) (Fin 0.5)) (Fin (0.5 * a)), u))
        (Fin (c0 * pi)) () = (Inr (Fin (c0 * pi), 1), ())"
    using r by (simp add: fsolve_def fsolve_iter_finish try_points_def small_def)
  have ef: "efficiency_fan example_nacelle = Fin 0.95" by (simp add: example_nacelle_def)
  show ?thesis
    unfolding unitary_thrust_def s
    by (simp only: bind_exc_def sum.case prod.case f Let_def ef vj simp_thms if_False)
       simp
qed

theorem converged_thrust_conserves_witness:
  "sound_root_finder (small (1 / 1000)) (try_points (small (1 / 1000)) [])
   \<and> unitary_thrust isa_earth (try_points (small (1 / 1000)) []) 100 example_nacelle
          (Fin 101325) (Fin 288.15) (Fin 0.5) ''MTO'' (Fin 0) (Fin 0)
        = Inr \<lparr>fn = Fin 0, pw = Fin 0\<rparr>
   \<and> (\<exists>PwShaft Ttot Vair q0init q y.
        thrust_setup isa_earth example_nacelle (Fin 101325) (Fin 288.15) (Fin 0.5) ''MTO''
          (Fin 0) (Fin 0) = Inr (PwShaft, Ttot, Vair, q0init)
      \<and> thrust_fct isa_earth example_nacelle q PwShaft (Fin 101325) Ttot Vair = Inr y
      \<and> small (1 / 1000) y
      \<and> Fin 0 = fmul q (fsub (np_sqrt (fadd (np_div (fmul (Fin 2)
                   (fmul (efficiency_fan example_nacelle) PwShaft)) q)
                   (np_power Vair (Fin 2)))) Vair)
      \<and> Fin 0 = fmul (efficiency_fan example_nacelle) PwShaft)"
proof -
  have s: "sound_root_finder (small (1 / 1000)) (try_points (small (1 / 1000)) [])"
    by (rule try_points_sound)
  from converged_thrust_conserves[OF s windmill_thrust_run] s windmill_thrust_run
  show ?thesis by (simp add: Let_def) blast
qed

lemma windmill_sc_run:
  "unitary_sc isa_earth (try_points (small2 (1 / 1000)) []) 100 example_nacelle
          (Fin 101325) (Fin 288.15) (Fin 0.5) ''MTO'' (Fin 0) (Fin 16000000)
        = Inr \<lparr>sec = NaN, pw_sc = Fin 0, thtl = Fin 1\<rparr>"
proof -
  from windmill_example obtain c0 a where
    cf: "corrected_air_flow isa_earth (total_pressure isa_earth (Fin 101325) (Fin 0.5))
        (total_temperature isa_earth (Fin 288.15) (Fin 0.5)) (Fin 0.5) = Inr (Fin c0)"
    and va: "fmul (Fin 0.5) (sound_speed isa_earth (Fin 288.15)) = Fin (0.5 * a)"
    and vj: "np_sqrt (fadd (np_div (fmul (Fin 2) (fmul (Fin 0.95) (Fin 0))) (Fin (c0 * pi)))
                       (np_power (Fin (0.5 * a)) (Fin 2))) = Fin (0.5 * a)"
    and r: "thrust_fct isa_earth example_nacelle (Fin (c0 * pi)) (Fin 0) (Fin 101325)
          (total_temperature isa_earth (Fin 288.15) (Fin 0.5)) (Fin (0.5 * a)) = Inr (Fin 0)"
    by blast
  have s: "sc_setup isa_earth example_nacelle (Fin 101325) (Fin 288.15) (Fin 0.5) ''MTO''
          (Fin 16000000)
        = Inr (total_temperature isa_earth (Fin 288.15) (Fin 0.5), Fin (0.5 * a),
               Fin (c0 * pi), Fin 0)"
    using cf va
    by (simp add: sc_setup_def bind_exc_def dict_get_def example_nacelle_def Let_def)
  have ef: "efficiency_fan example_nacelle = Fin 0.95" by (simp add: example_nacelle_def)
  have c: "sc_fct isa_earth example_nacelle (Fin (c0 * pi), Fin 0) (Fin 0) (Fin 101325)
          (total_temperature isa_earth (Fin 288.15) (Fin 0.5)) (Fin (0.5 * a))
        = Inr (Fin 0, Fin 0)"
    unfolding sc_fct_components r
    by (simp only: bind_exc_def sum.case ef vj) simp
  have f: "fsolve 100 (try_points (small2 (1 / 1000)) [])
        (\<lambda>x u. (sc_fct isa_earth example_nacelle x (Fin 0) (Fin 101325)
            (total_temperature isa_earth (Fin 288.15) (Fin 0.5)) (Fin (0.5 * a)), u))
        (Fin (c0 * pi), Fin 0) () = (Inr ((Fin (c0 * pi), Fin 0), 1), ())"
    using c by (simp add: fsolve_def fsolve_iter_finish try_points_def small2_def small_def)
  have d: "dict_get (rating_factor example_nacelle) ''MTO'' = Inr (Fin 1)"
    by (simp add: dict_get_def example_nacelle_def)
  have rp: "reference_power example_nacelle = Fin 16000000" by (simp add: example_nacelle_def)
  show ?thesis
    unfolding unitary_sc_def s
    by (simp only: bind_exc_def sum.case prod.case f Let_def ef vj fst_conv snd_conv d rp
          simp_thms if_False)
       simp
qed

theorem converged_sc_matches_thrust_witness:
  "sound_root_finder (small2 (1 / 1000)) (try_points (small2 (1 / 1000)) [])
   \<and> unitary_sc isa_earth (try_points (small2 (1 / 1000)) []) 100 example_nacelle
          (Fin 101325) (Fin 288.15) (Fin 0.5) ''MTO'' (Fin 0) (Fin 16000000)
        = Inr \<lparr>sec = NaN, pw_sc = Fin 0, thtl = Fin 1\<rparr>
   \<and> (\<exists>Ttot Vair q0init PWinit q y1 y2.
        sc_setup isa_earth example_nacelle (Fin 101325) (Fin 288.15) (Fin 0.5) ''MTO''
          (Fin 16000000) = Inr (Ttot, Vair, q0init, PWinit)
      \<and> sc_fct isa_earth example_nacelle (q, Fin 0) (Fin 0) (Fin 101325) Ttot Vair
          = Inr (y1, y2)
      \<and> small (1 / 1000) y1 \<and> small (1 / 1000) y2
      \<and> small (1 / 1000) (fsub (Fin 0)
           (fmul q (fsub (np_sqrt (fadd (np_div (fmul (Fin 2)
               (fmul (efficiency_fan example_nacelle) (Fin 0))) q)
               (np_power Vair (Fin 2)))) Vair)))
      \<and> NaN = np_div (Fin 0)
           (fmul q (fsub (np_sqrt (fadd (np_div (fmul (Fin 2)
               (fmul (efficiency_fan example_nacelle) (Fin 0))) q)
               (np_power Vair (Fin 2)))) Vair)))"
proof -
  have s: "sound_root_finder (small2 (1 / 1000)) (try_points (small2 (1 / 1000)) [])"
    by (rule try_points_sound)
  from converged_sc_matches_thrust[OF s windmill_sc_run] s windmill_sc_run
  show ?thesis by (simp add: Let_def) blast
qed

end
